theory Spec2Isabelle
  imports Complex_Main
begin

section \<open>Errors and strings\<close>

text \<open>
  The Python exceptions that the modelled functions can raise. A function that may raise
  returns \<open>error + 'a\<close>, with \<open>Inl\<close> for the exception.
\<close>

datatype error = ValueError | IndexError | ZeroDivisionError | AttributeError | TypeError

text \<open>
  The user-visible texts of the source are Japanese string literals. They are written here
  as their UTF-8 bytes, one constant per literal.
\<close>

definition MSG_CENTER :: string where
  \<comment> \<open>the literal meaning "put your face in the middle of the frame"\<close>
  "MSG_CENTER = [CHR 0xE9, CHR 0xA1, CHR 0x94, CHR 0xE3, CHR 0x82, CHR 0x92, CHR 0xE6,
     CHR 0x9E, CHR 0xA0, CHR 0xE3, CHR 0x81, CHR 0xAE, CHR 0xE4, CHR 0xB8, CHR 0xAD, CHR 0xE5,
     CHR 0xA4, CHR 0xAE, CHR 0xE3, CHR 0x81, CHR 0xAB]"

definition MSG_CLOSER :: string where
  \<comment> \<open>the literal meaning "please come closer"\<close>
  "MSG_CLOSER = [CHR 0xE8, CHR 0xBF, CHR 0x91, CHR 0xE3, CHR 0x81, CHR 0xA5, CHR 0xE3,
     CHR 0x81, CHR 0x84, CHR 0xE3, CHR 0x81, CHR 0xA6, CHR 0xE3, CHR 0x81, CHR 0x8F, CHR 0xE3,
     CHR 0x81, CHR 0xA0, CHR 0xE3, CHR 0x81, CHR 0x95, CHR 0xE3, CHR 0x81, CHR 0x84]"

definition MSG_REGISTER :: string where
  \<comment> \<open>the literal meaning "this face will be registered"\<close>
  "MSG_REGISTER = [CHR 0xE3, CHR 0x81, CHR 0x93, CHR 0xE3, CHR 0x81, CHR 0xAE, CHR 0xE9,
     CHR 0xA1, CHR 0x94, CHR 0xE3, CHR 0x81, CHR 0xA7, CHR 0xE7, CHR 0x99, CHR 0xBB, CHR 0xE9,
     CHR 0x8C, CHR 0xB2, CHR 0xE3, CHR 0x81, CHR 0x97, CHR 0xE3, CHR 0x81, CHR 0xBE, CHR 0xE3,
     CHR 0x81, CHR 0x99]"

definition MSG_RESULT_PREFIX :: string where
  \<comment> \<open>the constant part of the f-string "result: {name}"\<close>
  "MSG_RESULT_PREFIX = [CHR 0xE7, CHR 0xB5, CHR 0x90, CHR 0xE6, CHR 0x9E, CHR 0x9C,
     CHR 0x3A, CHR 0x20]"

definition MSG_AUTHENTICATING :: string where
  \<comment> \<open>the literal meaning "authenticating..."\<close>
  "MSG_AUTHENTICATING = [CHR 0xE8, CHR 0xAA, CHR 0x8D, CHR 0xE8, CHR 0xA8, CHR 0xBC,
     CHR 0xE4, CHR 0xB8, CHR 0xAD, CHR 0x2E, CHR 0x2E, CHR 0x2E]"

definition MSG_SUBMIT_ERROR :: string where
  \<comment> \<open>the literal meaning "there is no name or no captured frame"\<close>
  "MSG_SUBMIT_ERROR = [CHR 0xE5, CHR 0x90, CHR 0x8D, CHR 0xE5, CHR 0x89, CHR 0x8D,
     CHR 0xE3, CHR 0x81, CHR 0xBE, CHR 0xE3, CHR 0x81, CHR 0x9F, CHR 0xE3, CHR 0x81, CHR 0xAF,
     CHR 0xE3, CHR 0x82, CHR 0xAD, CHR 0xE3, CHR 0x83, CHR 0xA3, CHR 0xE3, CHR 0x83, CHR 0x97,
     CHR 0xE3, CHR 0x83, CHR 0x81, CHR 0xE3, CHR 0x83, CHR 0xA3, CHR 0xE3, CHR 0x81, CHR 0x95,
     CHR 0xE3, CHR 0x82, CHR 0x8C, CHR 0xE3, CHR 0x81, CHR 0x9F, CHR 0xE3, CHR 0x83, CHR 0x95,
     CHR 0xE3, CHR 0x83, CHR 0xAC, CHR 0xE3, CHR 0x83, CHR 0xBC, CHR 0xE3, CHR 0x83, CHR 0xA0,
     CHR 0xE3, CHR 0x81, CHR 0x8C, CHR 0xE3, CHR 0x81, CHR 0x82, CHR 0xE3, CHR 0x82, CHR 0x8A,
     CHR 0xE3, CHR 0x81, CHR 0xBE, CHR 0xE3, CHR 0x81, CHR 0x9B, CHR 0xE3, CHR 0x82, CHR 0x93,
     CHR 0xE3, CHR 0x80, CHR 0x82]"

definition MSG_REGISTERED_SUFFIX :: string where
  \<comment> \<open>the constant part of the f-string "{user_name} has been registered"\<close>
  "MSG_REGISTERED_SUFFIX = [CHR 0xE3, CHR 0x81, CHR 0x95, CHR 0xE3, CHR 0x82, CHR 0x93,
     CHR 0xE3, CHR 0x82, CHR 0x92, CHR 0xE7, CHR 0x99, CHR 0xBB, CHR 0xE9, CHR 0x8C, CHR 0xB2,
     CHR 0xE3, CHR 0x81, CHR 0x97, CHR 0xE3, CHR 0x81, CHR 0xBE, CHR 0xE3, CHR 0x81, CHR 0x97,
     CHR 0xE3, CHR 0x81, CHR 0x9F, CHR 0xE3, CHR 0x80, CHR 0x82]"

section \<open>Frames and drawing\<close>

text \<open>
  A frame is the camera image together with the drawing calls applied to it so far: every
  in-place \<open>cv2.rectangle\<close> and every text drawing appends one entry. The camera image itself
  is opaque (type \<open>'px\<close>). \<open>frame.copy()\<close> is the identity on this value.
\<close>

type_synonym color = "nat \<times> nat \<times> nat"

datatype draw_op =
    Rectangle "int \<times> int" "int \<times> int" color nat
  | PutText string "int \<times> int" color

record 'px frame =
  pixels :: 'px
  drawn :: "draw_op list"

type_synonym box = "int \<times> int \<times> int \<times> int"
  \<comment> \<open>\<open>(x, y, w, h)\<close>\<close>

type_synonym location = "int \<times> int \<times> int \<times> int"
  \<comment> \<open>\<open>(top, right, bottom, left)\<close>, as the detector returns it\<close>

type_synonym encoding = "real list"

record face_data =
  location :: location
  encoding :: encoding

section \<open>Geometry helpers (app.py, test\_app.py)\<close>

text \<open>
  Pixel coordinates are Python integers; \<open>//\<close> is floor division, which is \<open>div\<close> on
  \<open>int\<close>. The distance and the ratio are floating-point numbers in the source and reals
  here. \<open>GUIDE_BOX_RECT\<close>, a module-level constant of the source, is an explicit argument.
\<close>

definition get_box_center :: "box \<Rightarrow> int \<times> int" where
  "get_box_center b = (case b of (x, y, w, h) \<Rightarrow> (x + w div 2, y + h div 2))"

definition get_box_area :: "box \<Rightarrow> int" where
  "get_box_area b = (case b of (x, y, w, h) \<Rightarrow> w * h)"

definition get_face_properties :: "location \<Rightarrow> box \<times> int" where
  "get_face_properties loc =
     (case loc of (t, r, b, l) \<Rightarrow>
        let w = r - l; h = b - t; area = w * h in ((l, t, w, h), area))"

definition linalg_norm :: "int \<times> int \<Rightarrow> real" where
  \<comment> \<open>\<open>np.linalg.norm\<close> of a vector of two integers\<close>
  "linalg_norm v = sqrt (real_of_int ((fst v)\<^sup>2 + (snd v)\<^sup>2))"

definition calculate_face_metrics :: "box \<Rightarrow> box \<Rightarrow> int \<Rightarrow> error + (real \<times> real)" where
  "calculate_face_metrics guide_box_rect face_box face_area =
     (let guide_center = get_box_center guide_box_rect;
          face_center = get_box_center face_box;
          distance = linalg_norm (fst guide_center - fst face_center,
                                  snd guide_center - snd face_center)
      in if get_box_area guide_box_rect = 0 then Inl ZeroDivisionError
         else Inr (distance,
                   real_of_int face_area / real_of_int (get_box_area guide_box_rect)))"

text \<open>
  Python's \<open>max(xs, key=k)\<close>: the first element whose key is greatest; it raises on an
  empty list.
\<close>

fun max_by :: "('a \<Rightarrow> int) \<Rightarrow> 'a \<Rightarrow> 'a list \<Rightarrow> 'a" where
  "max_by key best [] = best"
| "max_by key best (x # xs) =
     (if key best < key x then max_by key x xs else max_by key best xs)"

definition py_max :: "('a \<Rightarrow> int) \<Rightarrow> 'a list \<Rightarrow> error + 'a" where
  "py_max key xs = (case xs of [] \<Rightarrow> Inl ValueError | x # rest \<Rightarrow> Inr (max_by key x rest))"

definition face_area_key :: "face_data \<Rightarrow> int" where
  \<comment> \<open>\<open>lambda f: get_face_properties(f["location"])[1]\<close>\<close>
  "face_area_key f = snd (get_face_properties (location f))"

record config =
  GUIDE_BOX_RECT :: box
  POSITION_THRESHOLD :: real
  SIZE_THRESHOLD :: real

definition app_config :: config where
  \<comment> \<open>the constants of app.py and test\_app.py\<close>
  "app_config = \<lparr>GUIDE_BOX_RECT = ((1280 - 350) div 2, (720 - 450) div 2, 350, 450),
                  POSITION_THRESHOLD = 50, SIZE_THRESHOLD = 0.5\<rparr>"

section \<open>Renderer (renderer.py)\<close>

definition draw_text :: "'px frame \<Rightarrow> string \<Rightarrow> int \<times> int \<Rightarrow> color \<Rightarrow> 'px frame" where
  \<comment> \<open>\<open>_draw_text\<close>, and \<open>draw_japanese_text\<close> of app.py: both font paths draw the text\<close>
  "draw_text img msg position color = img\<lparr>drawn := drawn img @ [PutText msg position color]\<rparr>"

definition rectangle :: "'px frame \<Rightarrow> int \<times> int \<Rightarrow> int \<times> int \<Rightarrow> color \<Rightarrow> nat \<Rightarrow> 'px frame" where
  \<comment> \<open>\<open>cv2.rectangle\<close>\<close>
  "rectangle img p q color thickness =
     img\<lparr>drawn := drawn img @ [Rectangle p q color thickness]\<rparr>"

definition draw_guide_box :: "'px frame \<Rightarrow> box \<Rightarrow> color \<Rightarrow> 'px frame" where
  "draw_guide_box frame rect color =
     (case rect of (x, y, w, h) \<Rightarrow> rectangle frame (x, y) (x + w, y + h) color 3)"

definition draw_face_box :: "'px frame \<Rightarrow> location \<Rightarrow> string \<Rightarrow> color \<Rightarrow> 'px frame" where
  "draw_face_box frame loc msg color =
     (case loc of (t, r, b, l) \<Rightarrow>
        draw_text (rectangle frame (l, t) (r, b) color 3) msg (l, t - 40) color)"

section \<open>Authentication service (services.py)\<close>

record auth_result =
  name :: string
  box :: location

record AuthenticationService =
  tolerance :: real
  known_encodings :: "encoding list"
  known_user_ids :: "string list"
  user_id_to_name_map :: "string \<rightharpoonup> string"

definition euclidean_distance :: "encoding \<Rightarrow> encoding \<Rightarrow> real" where
  "euclidean_distance a b = sqrt (\<Sum>(x, y)\<leftarrow>zip a b. (x - y)\<^sup>2)"

definition face_distance :: "encoding list \<Rightarrow> encoding \<Rightarrow> error + real list" where
  \<comment> \<open>Modelled from the spec: \<open>face_recognition.face_distance\<close> belongs to an external
      library. The spec fixes the metric (Euclidean distance in embedding space, one
      distance per gallery entry, in gallery order) and one dimension for all embeddings;
      an entry of another dimension is a shape error.\<close>
  "face_distance face_encodings face_to_compare =
     (if list_all (\<lambda>e. length e = length face_to_compare) face_encodings
      then Inr (map (\<lambda>e. euclidean_distance e face_to_compare) face_encodings)
      else Inl ValueError)"

text \<open>\<open>np.argmin\<close>: the index of the first occurrence of the minimum; it raises on an empty array.\<close>

fun argmin_from :: "nat \<Rightarrow> real \<Rightarrow> nat \<Rightarrow> real list \<Rightarrow> nat" where
  "argmin_from best_i best_v i [] = best_i"
| "argmin_from best_i best_v i (x # xs) =
     (if x < best_v then argmin_from i x (Suc i) xs else argmin_from best_i best_v (Suc i) xs)"

definition argmin :: "real list \<Rightarrow> error + nat" where
  "argmin xs = (case xs of [] \<Rightarrow> Inl ValueError | x # rest \<Rightarrow> Inr (argmin_from 0 x 1 rest))"

definition dict_get :: "('k \<rightharpoonup> 'v) \<Rightarrow> 'k \<Rightarrow> 'v \<Rightarrow> 'v" where
  \<comment> \<open>\<open>d.get(k, default)\<close>\<close>
  "dict_get d k dflt = (case d k of None \<Rightarrow> dflt | Some v \<Rightarrow> v)"

definition list_index :: "'a list \<Rightarrow> nat \<Rightarrow> error + 'a" where
  \<comment> \<open>\<open>xs[i]\<close> for a non-negative index\<close>
  "list_index xs i = (if i < length xs then Inr (xs ! i) else Inl IndexError)"

definition authenticate_face :: "AuthenticationService \<Rightarrow> face_data \<Rightarrow> error + auth_result list" where
  "authenticate_face self fd =
     (let face_encoding = encoding fd; box_location = location fd in
      case face_distance (known_encodings self) face_encoding of
        Inl e \<Rightarrow> Inl e
      | Inr face_distances \<Rightarrow>
          if length face_distances > 0 then
            (case argmin face_distances of
               Inl e \<Rightarrow> Inl e
             | Inr best_match_index \<Rightarrow>
                 (case list_index face_distances best_match_index of
                    Inl e \<Rightarrow> Inl e
                  | Inr d \<Rightarrow>
                      if d \<le> tolerance self then
                        (case list_index (known_user_ids self) best_match_index of
                           Inl e \<Rightarrow> Inl e
                         | Inr user_id \<Rightarrow>
                             Inr [\<lparr>name = dict_get (user_id_to_name_map self) user_id ''Unknown'',
                                   box = box_location\<rparr>])
                      else Inr [\<lparr>name = ''Unknown'', box = box_location\<rparr>]))
          else Inr [\<lparr>name = ''Unknown'', box = box_location\<rparr>])"

section \<open>Session state and command handlers (test\_app.py)\<close>

datatype mode = AUTHENTICATING | REGISTRATION_SEARCHING | REGISTRATION_FROZEN

record 'px AppState =
  mode :: mode
  captured_frame :: "'px frame option"
  last_auth_result :: "auth_result option"
    \<comment> \<open>the dict \<open>last_auth_result\<close>, empty (\<open>None\<close>) at start and never written\<close>

definition AppState_init :: "'px AppState" where
  "AppState_init = \<lparr>mode = AUTHENTICATING, captured_frame = None, last_auth_result = None\<rparr>"

text \<open>A Flask response: the HTTP status code and the JSON body's two keys.\<close>

record response =
  http_code :: nat
  status :: string
  message :: "string option"

definition ok_response :: response where
  "ok_response = \<lparr>http_code = 200, status = ''ok'', message = None\<rparr>"

definition start_registration :: "'px AppState \<Rightarrow> response \<times> 'px AppState" where
  "start_registration s = (ok_response, s\<lparr>mode := REGISTRATION_SEARCHING\<rparr>)"

definition recapture :: "'px AppState \<Rightarrow> response \<times> 'px AppState" where
  "recapture s = (ok_response, s\<lparr>mode := REGISTRATION_SEARCHING, captured_frame := None\<rparr>)"

definition cancel_registration :: "'px AppState \<Rightarrow> response \<times> 'px AppState" where
  "cancel_registration s = (ok_response, s\<lparr>mode := AUTHENTICATING, captured_frame := None\<rparr>)"

definition get_status :: "'px AppState \<Rightarrow> mode \<times> bool" where
  \<comment> \<open>the \<open>/status\<close> endpoint: \<open>mode\<close> and \<open>isFrameCaptured\<close>\<close>
  "get_status s = (mode s, captured_frame s \<noteq> None)"

section \<open>Frame handlers of the stream processor (stream\_processor.py)\<close>

text \<open>
  The detector \<open>face_processor.detect_and_encode_faces\<close> is an external collaborator and an
  argument here. The entries \<open>get_face_properties\<close> and \<open>calculate_face_metrics\<close> of the
  processor's \<open>config\<close> are the functions of app.py above, with the guide rectangle of the
  same \<open>config\<close>.
\<close>

definition StreamProcessor_handle_authentication_frame ::
  "config \<Rightarrow> ('px frame \<Rightarrow> face_data list) \<Rightarrow> AuthenticationService \<Rightarrow> 'px frame
     \<Rightarrow> error + 'px frame" where
  "StreamProcessor_handle_authentication_frame cfg detect_and_encode_faces auth frame0 =
     (let detected_faces = detect_and_encode_faces frame0;
          frame = draw_guide_box frame0 (GUIDE_BOX_RECT cfg) (128, 128, 128)
      in if detected_faces = [] then Inr frame
         else
          (case py_max face_area_key detected_faces of
             Inl e \<Rightarrow> Inl e
           | Inr largest_face \<Rightarrow>
               let (face_box_coords, face_area) = get_face_properties (location largest_face) in
               (case calculate_face_metrics (GUIDE_BOX_RECT cfg) face_box_coords face_area of
                  Inl e \<Rightarrow> Inl e
                | Inr (distance, size_ratio) \<Rightarrow>
                    if distance \<le> POSITION_THRESHOLD cfg \<and> size_ratio \<ge> SIZE_THRESHOLD cfg
                    then
                      (case authenticate_face auth largest_face of
                         Inl e \<Rightarrow> Inl e
                       | Inr auth_result \<Rightarrow>
                           (case list_index auth_result 0 of
                              Inl e \<Rightarrow> Inl e
                            | Inr r \<Rightarrow>
                                let nm = name r;
                                    color = (if nm \<noteq> ''Unknown'' then (0, 255, 0) else (0, 0, 255))
                                in Inr (draw_face_box frame (location largest_face)
                                          (MSG_RESULT_PREFIX @ nm) color)))
                    else
                      let color = (0, 255, 255);
                          msg = (if distance > POSITION_THRESHOLD cfg then MSG_CENTER
                                 else MSG_CLOSER)
                      in Inr (draw_face_box frame (location largest_face) msg color))))"

definition StreamProcessor_handle_registration_frame ::
  "config \<Rightarrow> ('px frame \<Rightarrow> face_data list) \<Rightarrow> 'px frame \<Rightarrow> 'px AppState
     \<Rightarrow> (error + 'px frame) \<times> 'px AppState" where
  "StreamProcessor_handle_registration_frame cfg detect_and_encode_faces frame s =
     (let detected_faces = detect_and_encode_faces frame
      in if detected_faces = [] then (Inr frame, s\<lparr>captured_frame := None\<rparr>)
         else
          (case py_max face_area_key detected_faces of
             Inl e \<Rightarrow> (Inl e, s)
           | Inr largest_face \<Rightarrow>
               let (face_box, face_area) = get_face_properties (location largest_face) in
               (case calculate_face_metrics (GUIDE_BOX_RECT cfg) face_box face_area of
                  Inl e \<Rightarrow> (Inl e, s)
                | Inr (distance, size_ratio) \<Rightarrow>
                    let s1 = (if mode s = REGISTRATION_SEARCHING
                                 \<and> distance \<le> POSITION_THRESHOLD cfg
                                 \<and> size_ratio \<ge> SIZE_THRESHOLD cfg
                              then s\<lparr>mode := REGISTRATION_FROZEN, captured_frame := Some frame\<rparr>
                              else s);
                        (color, msg) =
                          (if mode s1 = REGISTRATION_FROZEN then ((0, 255, 0), MSG_REGISTER)
                           else ((0, 255, 255),
                                 if distance > POSITION_THRESHOLD cfg then MSG_CENTER
                                 else MSG_CLOSER))
                    in (Inr (draw_face_box frame (location largest_face) msg color), s1))))"

text \<open>
  The head of the frame loop, the same in \<open>StreamProcessor.generate\<close> and in
  \<open>generate_frames\<close> of test\_app.py: a copy of the captured frame in mode
  \<open>REGISTRATION_FROZEN\<close> when there is one, otherwise what \<open>camera.get_frame()\<close> returns
  (\<open>camera_frame\<close>, \<open>None\<close> when the camera gives no frame).
\<close>

definition frame_source :: "'px AppState \<Rightarrow> 'px frame option \<Rightarrow> 'px frame option" where
  "frame_source s camera_frame =
     (case captured_frame s of
        Some cf \<Rightarrow> if mode s = REGISTRATION_FROZEN then Some cf else camera_frame
      | None \<Rightarrow> camera_frame)"

text \<open>
  One iteration of the loop of \<open>StreamProcessor.generate\<close>. The result is the frame
  passed to the encoder, or \<open>None\<close> when the iteration ends at \<open>continue\<close>.
\<close>

definition StreamProcessor_generate_step ::
  "config \<Rightarrow> ('px frame \<Rightarrow> face_data list) \<Rightarrow> AuthenticationService \<Rightarrow> 'px frame option
     \<Rightarrow> 'px AppState \<Rightarrow> (error + 'px frame option) \<times> 'px AppState" where
  "StreamProcessor_generate_step cfg detect_and_encode_faces auth camera_frame s =
     (case frame_source s camera_frame of
        None \<Rightarrow> (Inr None, s)
      | Some frame \<Rightarrow>
             if mode s = AUTHENTICATING then
               (case StreamProcessor_handle_authentication_frame cfg detect_and_encode_faces
                       auth frame of
                  Inl e \<Rightarrow> (Inl e, s)
                | Inr out \<Rightarrow> (Inr (Some out), s))
             else
               (case StreamProcessor_handle_registration_frame cfg detect_and_encode_faces
                       frame s of
                  (Inl e, s') \<Rightarrow> (Inl e, s')
                | (Inr out, s') \<Rightarrow> (Inr (Some out), s')))"

section \<open>The authentication stream of app.py\<close>

text \<open>
  One iteration of the loop of \<open>generate_frames\<close> in app.py: the list of frames it yields,
  and the exception that ends it, if any. The number of times the result frame is yielded
  depends on the wall clock (three seconds); it is the argument \<open>hold\<close>.
\<close>

definition generate_frames_body ::
  "config \<Rightarrow> ('px frame \<Rightarrow> face_data list) \<Rightarrow> AuthenticationService \<Rightarrow> nat
     \<Rightarrow> 'px frame option \<Rightarrow> 'px frame list \<times> error option" where
  "generate_frames_body cfg detect_and_encode_faces auth hold camera_frame =
     (case camera_frame of
        None \<Rightarrow> ([], None)
      | Some frame0 \<Rightarrow>
          let detected_faces = detect_and_encode_faces frame0;
              default_color = (128, 128, 128);
              (gx, gy, gw, gh) = GUIDE_BOX_RECT cfg;
              frame = rectangle frame0 (gx, gy) (gx + gw, gy + gh) default_color 3
          in if detected_faces = [] then ([frame], None)
             else
              (case py_max face_area_key detected_faces of
                 Inl e \<Rightarrow> ([], Some e)
               | Inr largest_face \<Rightarrow>
                   let (face_box_coords, face_area) = get_face_properties (location largest_face);
                       (l, t, w, h) = face_box_coords
                   in (case calculate_face_metrics (GUIDE_BOX_RECT cfg) face_box_coords face_area of
                         Inl e \<Rightarrow> ([], Some e)
                       | Inr (distance, size_ratio) \<Rightarrow>
                           if distance \<le> POSITION_THRESHOLD cfg \<and> size_ratio \<ge> SIZE_THRESHOLD cfg
                           then
                             let auth_color = (255, 255, 255);
                                 processing_frame =
                                   draw_text (rectangle frame (l, t) (l + w, t + h) auth_color 3)
                                     MSG_AUTHENTICATING (l, t - 40) auth_color
                             in (case authenticate_face auth largest_face of
                                   Inl e \<Rightarrow> ([processing_frame], Some e)
                                 | Inr auth_result \<Rightarrow>
                                     (case list_index auth_result 0 of
                                        Inl e \<Rightarrow> ([processing_frame], Some e)
                                      | Inr r \<Rightarrow>
                                          let nm = name r;
                                              result_color = (if nm \<noteq> ''Unknown'' then (0, 255, 0)
                                                              else (0, 0, 255));
                                              result_frame =
                                                draw_text (rectangle frame (l, t) (l + w, t + h)
                                                             result_color 3)
                                                  (MSG_RESULT_PREFIX @ nm) (l, t - 40) result_color
                                          in (processing_frame # replicate hold result_frame, None)))
                           else
                             let feedback_color = (0, 255, 255);
                                 feedback_message =
                                   (if distance > POSITION_THRESHOLD cfg then MSG_CENTER
                                    else MSG_CLOSER)
                             in ([draw_text (rectangle frame (l, t) (l + w, t + h) feedback_color 3)
                                    feedback_message (l, t - 40) feedback_color], None))))"

section \<open>Registration frame handler and stream of test\_app.py\<close>

text \<open>
  \<open>handle_registration_frame\<close> of test\_app.py updates the session state as the stream
  processor's handler does; its last statement calls \<open>draw_japanese_text\<close> with four
  arguments where the function takes six, which raises \<open>TypeError\<close> after the state has
  been written.
\<close>

definition handle_registration_frame ::
  "config \<Rightarrow> ('px frame \<Rightarrow> face_data list) \<Rightarrow> 'px frame \<Rightarrow> 'px AppState
     \<Rightarrow> (error + 'px frame) \<times> 'px AppState" where
  "handle_registration_frame cfg detect_and_encode_faces frame s =
     (let detected_faces = detect_and_encode_faces frame
      in if detected_faces = [] then (Inr frame, s\<lparr>captured_frame := None\<rparr>)
         else
          (case py_max face_area_key detected_faces of
             Inl e \<Rightarrow> (Inl e, s)
           | Inr largest_face \<Rightarrow>
               let (face_box, face_area) = get_face_properties (location largest_face) in
               (case calculate_face_metrics (GUIDE_BOX_RECT cfg) face_box face_area of
                  Inl e \<Rightarrow> (Inl e, s)
                | Inr (distance, size_ratio) \<Rightarrow>
                    let s1 = (if mode s = REGISTRATION_SEARCHING
                                 \<and> distance \<le> POSITION_THRESHOLD cfg
                                 \<and> size_ratio \<ge> SIZE_THRESHOLD cfg
                              then s\<lparr>mode := REGISTRATION_FROZEN, captured_frame := Some frame\<rparr>
                              else s)
                    in (Inl TypeError, s1))))"

text \<open>
  One iteration of the loop of \<open>generate_frames\<close> in test\_app.py. In mode
  \<open>AUTHENTICATING\<close> the call \<open>handle_authentication_frame(frame)\<close> only creates a generator
  object that is never iterated, so no statement of that function runs and the frame is
  encoded as it is.
\<close>

definition test_app_generate_frames_step ::
  "config \<Rightarrow> ('px frame \<Rightarrow> face_data list) \<Rightarrow> 'px frame option \<Rightarrow> 'px AppState
     \<Rightarrow> (error + 'px frame option) \<times> 'px AppState" where
  "test_app_generate_frames_step cfg detect_and_encode_faces camera_frame s =
     (case frame_source s camera_frame of
        None \<Rightarrow> (Inr None, s)
      | Some frame \<Rightarrow>
             if mode s = AUTHENTICATING then (Inr (Some frame), s)
             else
               (case handle_registration_frame cfg detect_and_encode_faces frame s of
                  (Inl e, s') \<Rightarrow> (Inl e, s')
                | (Inr out, s') \<Rightarrow> (Inr (Some out), s')))"

section \<open>Storage (data\_manager.py)\<close>

text \<open>
  The files of the data manager as one value: the metadata JSON file, the dataset
  directory (user id to the images of that user's directory, in file-name order) and the
  encodings pickle file (absent before the first build). Reads and writes succeed.
\<close>

record user_data =
  md_user_id :: string
  md_name :: string
  md_registered_at :: string

record 'px storage =
  metadata_file :: "user_data list"
  dataset :: "string \<rightharpoonup> 'px frame list"
  encodings_file :: "(encoding list \<times> string list) option"

definition read_metadata :: "'px storage \<Rightarrow> user_data list" where
  "read_metadata st = metadata_file st"

definition write_metadata :: "user_data list \<Rightarrow> 'px storage \<Rightarrow> 'px storage" where
  "write_metadata data st = st\<lparr>metadata_file := data\<rparr>"

definition save_images_for_user :: "string \<Rightarrow> 'px frame list \<Rightarrow> 'px storage \<Rightarrow> 'px storage" where
  \<comment> \<open>files \<open>01.jpg\<close>, \<open>02.jpg\<close>, ... of the user's directory are written; later files stay\<close>
  "save_images_for_user uid images st =
     st\<lparr>dataset := (dataset st)(uid \<mapsto> images @ drop (length images) (dict_get (dataset st) uid []))\<rparr>"

definition save_encodings :: "encoding list \<Rightarrow> string list \<Rightarrow> 'px storage \<Rightarrow> 'px storage" where
  "save_encodings encodings user_ids st = st\<lparr>encodings_file := Some (encodings, user_ids)\<rparr>"

definition load_encodings :: "'px storage \<Rightarrow> (encoding list \<times> string list) option" where
  "load_encodings st = encodings_file st"

definition get_image_paths_for_user :: "'px storage \<Rightarrow> string \<Rightarrow> 'px frame list" where
  "get_image_paths_for_user st uid = dict_get (dataset st) uid []"

section \<open>Registration and encoding services (services.py)\<close>

text \<open>
  \<open>uuid.uuid4()\<close> and the clock are arguments (\<open>uuid4\<close>, \<open>now\<close>), as is the external face
  encoder \<open>extract_encodings\<close>.
\<close>

definition register_new_user ::
  "string \<Rightarrow> string \<Rightarrow> string \<Rightarrow> 'px frame list \<Rightarrow> 'px storage \<Rightarrow> (error + string) \<times> 'px storage" where
  "register_new_user uuid4 now nm images st =
     (if nm = [] \<or> images = [] then (Inl ValueError, st)
      else
        let user_id = uuid4;
            metadata = read_metadata st;
            new_user_data = \<lparr>md_user_id = user_id, md_name = nm, md_registered_at = now\<rparr>;
            st1 = write_metadata (metadata @ [new_user_data]) st;
            st2 = save_images_for_user user_id images st1
        in (Inr user_id, st2))"

fun encode_images ::
  "('px frame \<Rightarrow> encoding list) \<Rightarrow> string \<Rightarrow> 'px frame list \<Rightarrow> encoding list \<times> string list
     \<Rightarrow> encoding list \<times> string list" where
  "encode_images extract_encodings uid [] acc = acc"
| "encode_images extract_encodings uid (img # imgs) (encs, ids) =
     (let encodings = extract_encodings img
      in if length encodings = 1
         then encode_images extract_encodings uid imgs (encs @ [encodings ! 0], ids @ [uid])
         else encode_images extract_encodings uid imgs (encs, ids))"

fun encode_users ::
  "('px frame \<Rightarrow> encoding list) \<Rightarrow> 'px storage \<Rightarrow> user_data list \<Rightarrow> encoding list \<times> string list
     \<Rightarrow> encoding list \<times> string list" where
  "encode_users extract_encodings st [] acc = acc"
| "encode_users extract_encodings st (u # us) acc =
     encode_users extract_encodings st us
       (encode_images extract_encodings (md_user_id u)
          (get_image_paths_for_user st (md_user_id u)) acc)"

definition build_encodings_from_dataset ::
  "('px frame \<Rightarrow> encoding list) \<Rightarrow> 'px storage \<Rightarrow> 'px storage" where
  "build_encodings_from_dataset extract_encodings st =
     (let metadata = read_metadata st
      in if metadata = [] then st
         else
           let (all_known_encodings, all_known_user_ids) =
                 encode_users extract_encodings st metadata ([], [])
           in if all_known_encodings = [] then st
              else save_encodings all_known_encodings all_known_user_ids st)"

definition load_knowledge :: "'px storage \<Rightarrow> AuthenticationService \<Rightarrow> AuthenticationService" where
  \<comment> \<open>\<open>AuthenticationService._load_knowledge\<close>; in the dict comprehension a later entry
      of the metadata replaces an earlier one with the same user id\<close>
  "load_knowledge st self =
     (let self1 = (case load_encodings st of
                     Some (encs, ids) \<Rightarrow> self\<lparr>known_encodings := encs, known_user_ids := ids\<rparr>
                   | None \<Rightarrow> self);
          metadata = read_metadata st
      in self1\<lparr>user_id_to_name_map := map_of (rev (map (\<lambda>u. (md_user_id u, md_name u)) metadata))\<rparr>)"

text \<open>
  A call \<open>auth_service.<attr>()\<close> with no argument. The class \<open>AuthenticationService\<close>
  defines the methods \<open>__init__\<close>, \<open>_load_knowledge\<close>, \<open>authenticate_face\<close> and
  \<open>authenticate_frame\<close> and sets seven instance attributes; only \<open>_load_knowledge\<close> takes no
  argument. Any other name is not an attribute of the object (names inherited from
  \<open>object\<close> are outside this model).
\<close>

definition AuthenticationService_methods :: "string list" where
  "AuthenticationService_methods =
     [''__init__'', ''_load_knowledge'', ''authenticate_face'', ''authenticate_frame'']"

definition AuthenticationService_fields :: "string list" where
  "AuthenticationService_fields =
     [''data_manager'', ''face_processor'', ''tolerance'', ''logger'', ''known_encodings'',
      ''known_user_ids'', ''user_id_to_name_map'']"

definition AuthenticationService_call0 ::
  "string \<Rightarrow> 'px storage \<Rightarrow> AuthenticationService \<Rightarrow> error + AuthenticationService" where
  "AuthenticationService_call0 attr st self =
     (if attr = ''_load_knowledge'' then Inr (load_knowledge st self)
      else if attr \<in> set AuthenticationService_methods \<or> attr \<in> set AuthenticationService_fields
      then Inl TypeError
      else Inl AttributeError)"

section \<open>Registration submission (test\_app.py)\<close>

record 'px world =
  app_state :: "'px AppState"
  storage :: "'px storage"
  auth_service :: AuthenticationService

definition submit_error_response :: response where
  "submit_error_response = \<lparr>http_code = 400, status = ''error'', message = Some MSG_SUBMIT_ERROR\<rparr>"

text \<open>
  \<open>user_name\<close> is \<open>request.form.get("name")\<close>: \<open>None\<close> when the form has no such field.
  The result is the response, or the exception that leaves the handler, with the state
  as the handler left it.
\<close>

definition submit_registration ::
  "string \<Rightarrow> string \<Rightarrow> ('px frame \<Rightarrow> encoding list) \<Rightarrow> string option \<Rightarrow> 'px world
     \<Rightarrow> (error + response) \<times> 'px world" where
  "submit_registration uuid4 now extract_encodings user_name w =
     (case user_name of
        None \<Rightarrow> (Inr submit_error_response, w)
      | Some nm \<Rightarrow>
          if nm = [] then (Inr submit_error_response, w)
          else
           (case captured_frame (app_state w) of
              None \<Rightarrow> (Inr submit_error_response, w)
            | Some cf \<Rightarrow>
               (case register_new_user uuid4 now nm [cf] (storage w) of
                  (Inl e, st1) \<Rightarrow> (Inl e, w\<lparr>storage := st1\<rparr>)
                | (Inr user_id, st1) \<Rightarrow>
                    let st2 = build_encodings_from_dataset extract_encodings st1 in
                    (case AuthenticationService_call0 ''reload_knowledge'' st2 (auth_service w) of
                       Inl e \<Rightarrow> (Inl e, w\<lparr>storage := st2\<rparr>)
                     | Inr auth' \<Rightarrow>
                         let (r, s') = cancel_registration (app_state w)
                         in (Inr \<lparr>http_code = 200, status = ''ok'',
                                  message = Some (nm @ MSG_REGISTERED_SUFFIX)\<rparr>,
                             \<lparr>app_state = s', storage = st2, auth_service = auth'\<rparr>)))))"

section \<open>Runs of the kiosk (test\_app.py)\<close>

text \<open>
  The events that change the process-wide state: the four commands and one iteration of
  the frame loop, of test\_app.py (\<open>Frame\<close>) or of the stream processor (\<open>StreamFrame\<close>).
  A frame event carries what the camera and the detector would return in that iteration. Events are applied one after the other (no interleaving inside a
  handler); an exception ends the handler and leaves the state as written so far.
\<close>

datatype 'px event =
    StartRegistration
  | Recapture
  | CancelRegistration
  | SubmitRegistration "string option" string string
  | Frame "'px frame option" "'px frame \<Rightarrow> face_data list"
  | StreamFrame "'px frame option" "'px frame \<Rightarrow> face_data list"

fun step ::
  "config \<Rightarrow> ('px frame \<Rightarrow> encoding list) \<Rightarrow> 'px event \<Rightarrow> 'px world \<Rightarrow> 'px world" where
  "step cfg ex StartRegistration w = w\<lparr>app_state := snd (start_registration (app_state w))\<rparr>"
| "step cfg ex Recapture w = w\<lparr>app_state := snd (recapture (app_state w))\<rparr>"
| "step cfg ex CancelRegistration w = w\<lparr>app_state := snd (cancel_registration (app_state w))\<rparr>"
| "step cfg ex (SubmitRegistration user_name uuid4 now) w =
     snd (submit_registration uuid4 now ex user_name w)"
| "step cfg ex (Frame camera_frame detect) w =
     w\<lparr>app_state := snd (test_app_generate_frames_step cfg detect camera_frame (app_state w))\<rparr>"
| "step cfg ex (StreamFrame camera_frame detect) w =
     w\<lparr>app_state := snd (StreamProcessor_generate_step cfg detect (auth_service w) camera_frame
                             (app_state w))\<rparr>"

definition run ::
  "config \<Rightarrow> ('px frame \<Rightarrow> encoding list) \<Rightarrow> 'px event list \<Rightarrow> 'px world \<Rightarrow> 'px world" where
  "run cfg ex evs w = foldl (\<lambda>w' e. step cfg ex e w') w evs"

section \<open>The gate as the specification words it\<close>

text \<open>
  The specification's gate predicate and feedback policy, written from its sentences
  (section 4.1); the handlers above are compared with them.
\<close>

definition spec_gate_ready :: "config \<Rightarrow> real \<Rightarrow> real \<Rightarrow> bool" where
  "spec_gate_ready cfg centerDistance sizeRatio \<longleftrightarrow>
     centerDistance \<le> POSITION_THRESHOLD cfg \<and> sizeRatio \<ge> SIZE_THRESHOLD cfg"

definition spec_feedback_message :: "config \<Rightarrow> real \<Rightarrow> string" where
  "spec_feedback_message cfg centerDistance =
     (if centerDistance > POSITION_THRESHOLD cfg then MSG_CENTER else MSG_CLOSER)"

section \<open>The invariant of the session state\<close>

definition frame_inv :: "'px AppState \<Rightarrow> bool" where
  \<comment> \<open>in mode \<open>AUTHENTICATING\<close> no captured frame is held\<close>
  "frame_inv s \<longleftrightarrow> (mode s = AUTHENTICATING \<longrightarrow> captured_frame s = None)"

section \<open>Example inputs\<close>

definition gallery0 :: AuthenticationService where
  "gallery0 = \<lparr>tolerance = 1, known_encodings = [[3, 0], [0, 1], [1, 0]],
      known_user_ids = [''u1'', ''u2'', ''u3''],
      user_id_to_name_map = [''u1'' \<mapsto> ''Alice'', ''u2'' \<mapsto> ''Bob'']\<rparr>"

definition gallery_empty :: AuthenticationService where
  "gallery_empty = \<lparr>tolerance = 0.55, known_encodings = [], known_user_ids = [],
      user_id_to_name_map = Map.empty\<rparr>"

definition probe0 :: face_data where
  "probe0 = \<lparr>location = (10, 50, 60, 20), encoding = [0, 0]\<rparr>"

definition frame1 :: "nat frame" where
  "frame1 = \<lparr>pixels = 1, drawn = []\<rparr>"

definition frame2 :: "nat frame" where
  "frame2 = \<lparr>pixels = 2, drawn = []\<rparr>"

definition state_stale :: "nat AppState" where
  "state_stale = \<lparr>mode = AUTHENTICATING, captured_frame = Some frame1, last_auth_result = None\<rparr>"

definition state_searching :: "nat AppState" where
  "state_searching =
     \<lparr>mode = REGISTRATION_SEARCHING, captured_frame = Some frame2, last_auth_result = None\<rparr>"

definition state_frozen :: "nat AppState" where
  "state_frozen =
     \<lparr>mode = REGISTRATION_FROZEN, captured_frame = Some frame1, last_auth_result = None\<rparr>"

definition storage_empty :: "nat storage" where
  "storage_empty = \<lparr>metadata_file = [], dataset = Map.empty, encodings_file = None\<rparr>"

definition world_init :: "nat world" where
  "world_init = \<lparr>app_state = AppState_init, storage = storage_empty, auth_service = gallery_empty\<rparr>"

definition world_frozen :: "nat world" where
  "world_frozen = \<lparr>app_state = state_frozen, storage = storage_empty, auth_service = gallery_empty\<rparr>"

definition face_ready :: face_data where
  \<comment> \<open>a 300 by 300 box whose centre is 30 px right of and 40 px below the guide's centre\<close>
  "face_ready = \<lparr>location = (250, 820, 550, 520), encoding = [0, 0]\<rparr>"

definition face_off_center :: face_data where
  \<comment> \<open>the same box moved so that its centre is 80 px right of the guide's centre\<close>
  "face_off_center = \<lparr>location = (210, 870, 510, 570), encoding = [0, 0]\<rparr>"

definition no_encodings :: "nat frame \<Rightarrow> encoding list" where
  "no_encodings f = []"

definition detect_none :: "nat frame \<Rightarrow> face_data list" where
  "detect_none f = []"

definition detect_ready :: "nat frame \<Rightarrow> face_data list" where
  "detect_ready f = [face_ready]"

definition detect_off_center :: "nat frame \<Rightarrow> face_data list" where
  "detect_off_center f = [face_off_center]"

definition one_encoding :: "nat frame \<Rightarrow> encoding list" where
  "one_encoding f = [[1, 0]]"

definition wide_config :: config where
  \<comment> \<open>the guide of app.py with a larger position threshold and a smaller size threshold\<close>
  "wide_config = app_config\<lparr>POSITION_THRESHOLD := 60, SIZE_THRESHOLD := 0.4\<rparr>"

section \<open>Lemmas on the matcher\<close>

lemma argmin_from_spec:
  assumes "length pre = i" "bi < i" "pre ! bi = bv" "\<forall>j<i. bv \<le> pre ! j" "\<forall>j<bi. bv < pre ! j"
  shows "argmin_from bi bv i xs < length (pre @ xs)
       \<and> (\<forall>j<length (pre @ xs). (pre @ xs) ! (argmin_from bi bv i xs) \<le> (pre @ xs) ! j)
       \<and> (\<forall>j<argmin_from bi bv i xs. (pre @ xs) ! (argmin_from bi bv i xs) < (pre @ xs) ! j)"
  using assms
proof (induction xs arbitrary: pre bi bv i)
  case Nil
  then show ?case by simp
next
  case (Cons x xs)
  show ?case
  proof (cases "x < bv")
    case True
    have a: "length (pre @ [x]) = Suc i" using Cons.prems by simp
    have b: "i < Suc i" by simp
    have c: "(pre @ [x]) ! i = x" using Cons.prems by (simp add: nth_append)
    have d: "\<forall>j<Suc i. x \<le> (pre @ [x]) ! j"
      using Cons.prems True by (auto simp: nth_append less_Suc_eq intro: less_imp_le order_trans)
    have e: "\<forall>j<i. x < (pre @ [x]) ! j"
      using Cons.prems True by (auto simp: nth_append intro: less_le_trans)
    from Cons.IH[OF a b c d e] True show ?thesis by simp
  next
    case False
    have a: "length (pre @ [x]) = Suc i" using Cons.prems by simp
    have b: "bi < Suc i" using Cons.prems by simp
    have c: "(pre @ [x]) ! bi = bv" using Cons.prems by (simp add: nth_append)
    have d: "\<forall>j<Suc i. bv \<le> (pre @ [x]) ! j"
      using Cons.prems False by (auto simp: nth_append less_Suc_eq)
    have e: "\<forall>j<bi. bv < (pre @ [x]) ! j"
      using Cons.prems by (auto simp: nth_append)
    from Cons.IH[OF a b c d e] False show ?thesis by simp
  qed
qed

lemma argmin_spec:
  assumes "xs \<noteq> []"
  shows "\<exists>i. argmin xs = Inr i \<and> i < length xs \<and> (\<forall>j<length xs. xs ! i \<le> xs ! j) \<and> (\<forall>j<i. xs ! i < xs ! j)"
proof -
  obtain x rest where xs: "xs = x # rest" using assms by (cases xs) auto
  have "argmin_from 0 x 1 rest < length ([x] @ rest)
       \<and> (\<forall>j<length ([x] @ rest). ([x] @ rest) ! (argmin_from 0 x 1 rest) \<le> ([x] @ rest) ! j)
       \<and> (\<forall>j<argmin_from 0 x 1 rest. ([x] @ rest) ! (argmin_from 0 x 1 rest) < ([x] @ rest) ! j)"
    by (rule argmin_from_spec) auto
  then show ?thesis by (simp add: xs argmin_def)
qed


lemma face_distance_ok:
  assumes "list_all (\<lambda>e. length e = length c) es"
  shows "face_distance es c = Inr (map (\<lambda>e. euclidean_distance e c) es)"
  using assms by (simp add: face_distance_def)

lemma authenticate_face_wf:
  assumes len: "length (known_user_ids self) = length (known_encodings self)"
      and dim: "list_all (\<lambda>e. length e = length (encoding fd)) (known_encodings self)"
      and ne: "known_encodings self \<noteq> []"
  shows "\<exists>i<length (known_encodings self).
               (\<forall>j<length (known_encodings self).
                   euclidean_distance (known_encodings self ! i) (encoding fd)
                 \<le> euclidean_distance (known_encodings self ! j) (encoding fd))
             \<and> (\<forall>j<i. euclidean_distance (known_encodings self ! i) (encoding fd)
                      < euclidean_distance (known_encodings self ! j) (encoding fd))
             \<and> authenticate_face self fd =
                 Inr [\<lparr>name =
                        (if euclidean_distance (known_encodings self ! i) (encoding fd) \<le> tolerance self
                         then (case user_id_to_name_map self (known_user_ids self ! i) of
                                 Some n \<Rightarrow> n | None \<Rightarrow> ''Unknown'')
                         else ''Unknown''),
                      box = location fd\<rparr>]"
proof -
  let ?ds = "map (\<lambda>e. euclidean_distance e (encoding fd)) (known_encodings self)"
  have fd: "face_distance (known_encodings self) (encoding fd) = Inr ?ds"
    using dim by (rule face_distance_ok)
  have "?ds \<noteq> []" using ne by simp
  from argmin_spec[OF this] obtain i where
    i: "argmin ?ds = Inr i" "i < length ?ds" "\<forall>j<length ?ds. ?ds ! i \<le> ?ds ! j" "\<forall>j<i. ?ds ! i < ?ds ! j"
    by blast
  have il: "i < length (known_encodings self)" using i(2) by simp
  have a: "\<forall>j<length (known_encodings self).
                   euclidean_distance (known_encodings self ! i) (encoding fd)
                 \<le> euclidean_distance (known_encodings self ! j) (encoding fd)"
    using i(3) il by simp
  have b: "\<forall>j<i. euclidean_distance (known_encodings self ! i) (encoding fd)
                      < euclidean_distance (known_encodings self ! j) (encoding fd)"
    using i(4) il by simp
  have c: "authenticate_face self fd =
                 Inr [\<lparr>name =
                        (if euclidean_distance (known_encodings self ! i) (encoding fd) \<le> tolerance self
                         then (case user_id_to_name_map self (known_user_ids self ! i) of
                                 Some n \<Rightarrow> n | None \<Rightarrow> ''Unknown'')
                         else ''Unknown''),
                      box = location fd\<rparr>]"
    using il ne len by (simp add: authenticate_face_def fd i(1) list_index_def dict_get_def)
  from il a b c show ?thesis by blast
qed

lemma authenticate_face_empty:
  "known_encodings self = [] \<Longrightarrow>
     authenticate_face self fd = Inr [\<lparr>name = ''Unknown'', box = location fd\<rparr>]"
  by (simp add: authenticate_face_def face_distance_def)

lemma authenticate_face_shape:
  "authenticate_face self fd = Inr rs \<Longrightarrow> \<exists>n. rs = [\<lparr>name = n, box = location fd\<rparr>]"
  by (auto simp: authenticate_face_def Let_def split: sum.splits if_splits)

section \<open>Identity matcher\<close>

text \<open>
  Claim C1. For a gallery whose two lists have the same length and whose embeddings have
  the probe's dimension: with an empty gallery the name is \<open>Unknown\<close>; otherwise there is
  an entry \<open>i\<close> at minimum Euclidean distance from the probe, the first such entry in
  gallery order, and the name is the one the name map gives for that entry's user id
  when the distance is at most the tolerance (equality included) and the map has the id,
  and \<open>Unknown\<close> when the distance is greater or the id is absent.
\<close>

theorem authenticate_face_nearest:
  assumes len: "length (known_user_ids self) = length (known_encodings self)"
      and dim: "list_all (\<lambda>e. length e = length (encoding fd)) (known_encodings self)"
  shows "(known_encodings self = [] \<longrightarrow>
            authenticate_face self fd = Inr [\<lparr>name = ''Unknown'', box = location fd\<rparr>])
       \<and> (known_encodings self \<noteq> [] \<longrightarrow>
            (\<exists>i<length (known_encodings self).
               (\<forall>j<length (known_encodings self).
                   euclidean_distance (known_encodings self ! i) (encoding fd)
                 \<le> euclidean_distance (known_encodings self ! j) (encoding fd))
             \<and> (\<forall>j<i. euclidean_distance (known_encodings self ! i) (encoding fd)
                      < euclidean_distance (known_encodings self ! j) (encoding fd))
             \<and> authenticate_face self fd =
                 Inr [\<lparr>name =
                        (if euclidean_distance (known_encodings self ! i) (encoding fd) \<le> tolerance self
                         then (case user_id_to_name_map self (known_user_ids self ! i) of
                                 Some n \<Rightarrow> n | None \<Rightarrow> ''Unknown'')
                         else ''Unknown''),
                      box = location fd\<rparr>]))"
  using authenticate_face_wf[OF len dim] authenticate_face_empty[of self fd] by blast

text \<open>
  The gallery \<open>gallery0\<close> has its second and third entries both at distance 1 from the
  probe, with tolerance 1: the second entry wins the tie and is accepted at the boundary.
\<close>

theorem authenticate_face_nearest_witness:
  "length (known_user_ids gallery0) = length (known_encodings gallery0)
 \<and> list_all (\<lambda>e. length e = length (encoding probe0)) (known_encodings gallery0)
 \<and> authenticate_face gallery0 probe0 = Inr [\<lparr>name = ''Bob'', box = (10, 50, 60, 20)\<rparr>]"
proof -
  have len: "length (known_user_ids gallery0) = length (known_encodings gallery0)"
    by (simp add: gallery0_def)
  have dim: "list_all (\<lambda>e. length e = length (encoding probe0)) (known_encodings gallery0)"
    by (simp add: gallery0_def probe0_def)
  have ne: "known_encodings gallery0 \<noteq> []" by (simp add: gallery0_def)
  from authenticate_face_nearest[OF len dim] ne obtain i where
    i: "i < length (known_encodings gallery0)"
       "\<forall>j<length (known_encodings gallery0).
                   euclidean_distance (known_encodings gallery0 ! i) (encoding probe0)
                 \<le> euclidean_distance (known_encodings gallery0 ! j) (encoding probe0)"
       "\<forall>j<i. euclidean_distance (known_encodings gallery0 ! i) (encoding probe0)
                      < euclidean_distance (known_encodings gallery0 ! j) (encoding probe0)"
       "authenticate_face gallery0 probe0 =
                 Inr [\<lparr>name =
                        (if euclidean_distance (known_encodings gallery0 ! i) (encoding probe0) \<le> tolerance gallery0
                         then (case user_id_to_name_map gallery0 (known_user_ids gallery0 ! i) of
                                 Some n \<Rightarrow> n | None \<Rightarrow> ''Unknown'')
                         else ''Unknown''),
                      box = location probe0\<rparr>]"
    by blast
  have d0: "euclidean_distance (known_encodings gallery0 ! 0) (encoding probe0) = 3"
    by (simp add: gallery0_def probe0_def euclidean_distance_def)
  have d1: "euclidean_distance (known_encodings gallery0 ! 1) (encoding probe0) = 1"
    by (simp add: gallery0_def probe0_def euclidean_distance_def)
  have d2: "euclidean_distance (known_encodings gallery0 ! 2) (encoding probe0) = 1"
    by (simp add: gallery0_def probe0_def euclidean_distance_def)
  have "i < 3" using i(1) by (simp add: gallery0_def)
  then consider "i = 0" | "i = 1" | "i = 2" by linarith
  then have "i = 1"
  proof cases
    case 1
    have "(1::nat) < length (known_encodings gallery0)" by (simp add: gallery0_def)
    with i(2) have "euclidean_distance (known_encodings gallery0 ! i) (encoding probe0)
                 \<le> euclidean_distance (known_encodings gallery0 ! 1) (encoding probe0)"
      by blast
    with 1 d0 d1 show ?thesis by simp
  next
    case 2
    then show ?thesis .
  next
    case 3
    have "(1::nat) < i" using 3 by simp
    with i(3) have "euclidean_distance (known_encodings gallery0 ! i) (encoding probe0)
                 < euclidean_distance (known_encodings gallery0 ! 1) (encoding probe0)"
      by blast
    with 3 d1 d2 show ?thesis by simp
  qed
  with i(4) d1 have "authenticate_face gallery0 probe0 = Inr [\<lparr>name = ''Bob'', box = (10, 50, 60, 20)\<rparr>]"
    by (simp add: gallery0_def probe0_def)
  with len dim show ?thesis by blast
qed

text \<open>
  Claim C10. For a gallery whose two lists have the same length and whose embeddings
  have the probe's dimension (the empty gallery included), \<open>authenticate_face\<close> returns a
  list of exactly one result, whose box is the observation's location; and whenever
  \<open>authenticate_face\<close> returns at all, that is what it returns.
\<close>

theorem authenticate_face_single_result:
  "(length (known_user_ids self) = length (known_encodings self)
      \<and> list_all (\<lambda>e. length e = length (encoding fd)) (known_encodings self)
    \<longrightarrow> (\<exists>n. authenticate_face self fd = Inr [\<lparr>name = n, box = location fd\<rparr>]))
 \<and> (\<forall>rs. authenticate_face self fd = Inr rs \<longrightarrow> (\<exists>n. rs = [\<lparr>name = n, box = location fd\<rparr>]))"
proof (intro conjI impI allI)
  assume wf: "length (known_user_ids self) = length (known_encodings self)
      \<and> list_all (\<lambda>e. length e = length (encoding fd)) (known_encodings self)"
  show "\<exists>n. authenticate_face self fd = Inr [\<lparr>name = n, box = location fd\<rparr>]"
  proof (cases "known_encodings self = []")
    case True
    then show ?thesis using authenticate_face_empty by blast
  next
    case False
    with wf authenticate_face_wf[of self fd] show ?thesis by blast
  qed
next
  fix rs assume "authenticate_face self fd = Inr rs"
  then show "\<exists>n. rs = [\<lparr>name = n, box = location fd\<rparr>]" by (rule authenticate_face_shape)
qed

theorem authenticate_face_single_result_witness:
  "length (known_user_ids gallery_empty) = length (known_encodings gallery_empty)
 \<and> list_all (\<lambda>e. length e = length (encoding probe0)) (known_encodings gallery_empty)
 \<and> (\<exists>n. authenticate_face gallery_empty probe0 = Inr [\<lparr>name = n, box = (10, 50, 60, 20)\<rparr>])"
  using authenticate_face_single_result [of gallery_empty probe0]
  by (simp add: gallery_empty_def probe0_def)

section \<open>Lemmas on the frame handlers\<close>

lemma py_max_nonempty: "py_max key xs = Inr m \<Longrightarrow> xs \<noteq> []"
  by (auto simp: py_max_def)

lemma StreamProcessor_handle_authentication_frame_eval:
  assumes "py_max face_area_key (detect frame0) = Inr largest"
      and "calculate_face_metrics (GUIDE_BOX_RECT cfg) (fst (get_face_properties (location largest)))
             (snd (get_face_properties (location largest))) = Inr (d, r)"
  shows "StreamProcessor_handle_authentication_frame cfg detect auth frame0 =
     (if d \<le> POSITION_THRESHOLD cfg \<and> r \<ge> SIZE_THRESHOLD cfg
      then (case authenticate_face auth largest of
              Inl e \<Rightarrow> Inl e
            | Inr rs \<Rightarrow>
                Inr (draw_face_box (draw_guide_box frame0 (GUIDE_BOX_RECT cfg) (128, 128, 128))
                       (location largest) (MSG_RESULT_PREFIX @ name (hd rs))
                       (if name (hd rs) \<noteq> ''Unknown'' then (0, 255, 0) else (0, 0, 255))))
      else Inr (draw_face_box (draw_guide_box frame0 (GUIDE_BOX_RECT cfg) (128, 128, 128))
                  (location largest)
                  (if d > POSITION_THRESHOLD cfg then MSG_CENTER else MSG_CLOSER) (0, 255, 255)))"
proof -
  have ne: "detect frame0 \<noteq> []" using assms(1) by (rule py_max_nonempty)
  show ?thesis
  proof (cases "authenticate_face auth largest")
    case (Inl e)
    then show ?thesis using ne assms
      by (simp add: StreamProcessor_handle_authentication_frame_def Let_def case_prod_beta)
  next
    case (Inr rs)
    then obtain n where "rs = [\<lparr>name = n, box = location largest\<rparr>]"
      using authenticate_face_shape by blast
    then show ?thesis using ne assms Inr
      by (simp add: StreamProcessor_handle_authentication_frame_def Let_def case_prod_beta list_index_def)
  qed
qed

lemma generate_frames_body_eval:
  assumes "py_max face_area_key (detect frame0) = Inr largest"
      and "calculate_face_metrics (GUIDE_BOX_RECT cfg) (fst (get_face_properties (location largest)))
             (snd (get_face_properties (location largest))) = Inr (d, r)"
  shows "generate_frames_body cfg detect auth hold (Some frame0) =
     (if d \<le> POSITION_THRESHOLD cfg \<and> r \<ge> SIZE_THRESHOLD cfg
      then (case authenticate_face auth largest of
              Inl e \<Rightarrow>
                ([draw_face_box (draw_guide_box frame0 (GUIDE_BOX_RECT cfg) (128, 128, 128))
                    (location largest) MSG_AUTHENTICATING (255, 255, 255)], Some e)
            | Inr rs \<Rightarrow>
                (draw_face_box (draw_guide_box frame0 (GUIDE_BOX_RECT cfg) (128, 128, 128))
                    (location largest) MSG_AUTHENTICATING (255, 255, 255)
                 # replicate hold
                     (draw_face_box (draw_guide_box frame0 (GUIDE_BOX_RECT cfg) (128, 128, 128))
                       (location largest) (MSG_RESULT_PREFIX @ name (hd rs))
                       (if name (hd rs) \<noteq> ''Unknown'' then (0, 255, 0) else (0, 0, 255))), None))
      else ([draw_face_box (draw_guide_box frame0 (GUIDE_BOX_RECT cfg) (128, 128, 128))
                  (location largest)
                  (if d > POSITION_THRESHOLD cfg then MSG_CENTER else MSG_CLOSER) (0, 255, 255)], None))"
proof -
  have ne: "detect frame0 \<noteq> []" using assms(1) by (rule py_max_nonempty)
  obtain t rr b l where loc: "location largest = (t, rr, b, l)" by (cases "location largest") auto
  obtain gx gy gw gh where g: "GUIDE_BOX_RECT cfg = (gx, gy, gw, gh)"
    by (cases "GUIDE_BOX_RECT cfg") auto
  have gfp: "get_face_properties (t, rr, b, l) = ((l, t, rr - l, b - t), (rr - l) * (b - t))"
    by (simp add: get_face_properties_def Let_def)
  have m: "calculate_face_metrics (gx, gy, gw, gh) (l, t, rr - l, b - t) ((rr - l) * (b - t)) = Inr (d, r)"
    using assms(2) by (simp add: loc g gfp)
  show ?thesis
  proof (cases "authenticate_face auth largest")
    case (Inl e)
    then show ?thesis using ne assms(1) m
      by (simp add: generate_frames_body_def Let_def loc g gfp draw_face_box_def draw_guide_box_def)
  next
    case (Inr rs)
    then obtain n where "rs = [\<lparr>name = n, box = location largest\<rparr>]"
      using authenticate_face_shape by blast
    then show ?thesis using ne assms(1) m Inr
      by (simp add: generate_frames_body_def Let_def loc g gfp list_index_def
            draw_face_box_def draw_guide_box_def)
  qed
qed

lemma StreamProcessor_handle_registration_frame_eval:
  assumes "py_max face_area_key (detect frame) = Inr largest"
      and "calculate_face_metrics (GUIDE_BOX_RECT cfg) (fst (get_face_properties (location largest)))
             (snd (get_face_properties (location largest))) = Inr (d, r)"
  shows "StreamProcessor_handle_registration_frame cfg detect frame s =
     (if mode s = REGISTRATION_SEARCHING \<and> d \<le> POSITION_THRESHOLD cfg \<and> r \<ge> SIZE_THRESHOLD cfg
      then (Inr (draw_face_box frame (location largest) MSG_REGISTER (0, 255, 0)),
            s\<lparr>mode := REGISTRATION_FROZEN, captured_frame := Some frame\<rparr>)
      else if mode s = REGISTRATION_FROZEN
      then (Inr (draw_face_box frame (location largest) MSG_REGISTER (0, 255, 0)), s)
      else (Inr (draw_face_box frame (location largest)
                  (if d > POSITION_THRESHOLD cfg then MSG_CENTER else MSG_CLOSER) (0, 255, 255)), s))"
proof -
  have ne: "detect frame \<noteq> []" using assms(1) by (rule py_max_nonempty)
  show ?thesis using ne assms
    by (simp add: StreamProcessor_handle_registration_frame_def Let_def case_prod_beta)
qed

lemma handle_registration_frame_eval:
  assumes "py_max face_area_key (detect frame) = Inr largest"
      and "calculate_face_metrics (GUIDE_BOX_RECT cfg) (fst (get_face_properties (location largest)))
             (snd (get_face_properties (location largest))) = Inr (d, r)"
  shows "handle_registration_frame cfg detect frame s =
     (if mode s = REGISTRATION_SEARCHING \<and> d \<le> POSITION_THRESHOLD cfg \<and> r \<ge> SIZE_THRESHOLD cfg
      then (Inl TypeError, s\<lparr>mode := REGISTRATION_FROZEN, captured_frame := Some frame\<rparr>)
      else (Inl TypeError, s))"
proof -
  have ne: "detect frame \<noteq> []" using assms(1) by (rule py_max_nonempty)
  show ?thesis using ne assms
    by (simp add: handle_registration_frame_def Let_def case_prod_beta)
qed


lemma draw_face_box_eq:
  "draw_face_box fr loc m c = draw_face_box fr loc m' c' \<longleftrightarrow> m = m' \<and> c = c'"
proof
  assume eq: "draw_face_box fr loc m c = draw_face_box fr loc m' c'"
  obtain t rr b l where loc: "loc = (t, rr, b, l)" by (cases loc) auto
  have d1: "drawn (draw_face_box fr loc m c)
              = drawn fr @ [Rectangle (l, t) (rr, b) c 3, PutText m (l, t - 40) c]"
    by (simp add: loc draw_face_box_def draw_text_def rectangle_def)
  have d2: "drawn (draw_face_box fr loc m' c')
              = drawn fr @ [Rectangle (l, t) (rr, b) c' 3, PutText m' (l, t - 40) c']"
    by (simp add: loc draw_face_box_def draw_text_def rectangle_def)
  from eq have "drawn (draw_face_box fr loc m c) = drawn (draw_face_box fr loc m' c')" by simp
  then have "[Rectangle (l, t) (rr, b) c 3, PutText m (l, t - 40) c]
           = [Rectangle (l, t) (rr, b) c' 3, PutText m' (l, t - 40) c']"
    unfolding d1 d2 by simp
  then show "m = m' \<and> c = c'" by simp
next
  assume "m = m' \<and> c = c'"
  then show "draw_face_box fr loc m c = draw_face_box fr loc m' c'" by simp
qed

section \<open>Gate and feedback\<close>

text \<open>
  Claim C2. Let \<open>largest\<close> be the face the handler selects and \<open>centerDistance\<close>,
  \<open>sizeRatio\<close> the two numbers \<open>calculate_face_metrics\<close> returns for it. The
  authentication handler of the stream processor and the loop body of app.py produce the
  feedback frame (guide outline, face box and the specification's feedback message:
  "centre" when \<open>centerDistance > POSITION_THRESHOLD\<close>, whatever the size, "closer"
  otherwise) exactly when the specification's gate predicate is false; when it is true
  they produce the outcome of \<open>authenticate_face\<close> instead.
\<close>

theorem gate_and_feedback:
  assumes largest: "py_max face_area_key (detect frame0) = Inr largest"
      and metrics: "calculate_face_metrics (GUIDE_BOX_RECT cfg)
                      (fst (get_face_properties (location largest)))
                      (snd (get_face_properties (location largest)))
                    = Inr (centerDistance, sizeRatio)"
  shows "(spec_gate_ready cfg centerDistance sizeRatio \<longleftrightarrow>
            StreamProcessor_handle_authentication_frame cfg detect auth frame0
              \<noteq> Inr (draw_face_box (draw_guide_box frame0 (GUIDE_BOX_RECT cfg) (128, 128, 128))
                       (location largest) (spec_feedback_message cfg centerDistance) (0, 255, 255)))
       \<and> (spec_gate_ready cfg centerDistance sizeRatio \<longleftrightarrow>
            generate_frames_body cfg detect auth hold (Some frame0)
              \<noteq> ([draw_face_box (draw_guide_box frame0 (GUIDE_BOX_RECT cfg) (128, 128, 128))
                      (location largest) (spec_feedback_message cfg centerDistance) (0, 255, 255)],
                  None))
       \<and> (spec_gate_ready cfg centerDistance sizeRatio \<longleftrightarrow>
            StreamProcessor_handle_authentication_frame cfg detect auth frame0
              = (case authenticate_face auth largest of
                   Inl e \<Rightarrow> Inl e
                 | Inr rs \<Rightarrow>
                     Inr (draw_face_box
                            (draw_guide_box frame0 (GUIDE_BOX_RECT cfg) (128, 128, 128))
                            (location largest) (MSG_RESULT_PREFIX @ name (hd rs))
                            (if name (hd rs) \<noteq> ''Unknown'' then (0, 255, 0) else (0, 0, 255)))))"
proof -
  note sp = StreamProcessor_handle_authentication_frame_eval[where detect=detect and ?frame0.0=frame0 and auth=auth, OF largest metrics]
  note ap = generate_frames_body_eval[where detect=detect and ?frame0.0=frame0 and auth=auth and hold=hold, OF largest metrics]
  show ?thesis
  proof (cases "spec_gate_ready cfg centerDistance sizeRatio")
    case True
    then have rdy: "centerDistance \<le> POSITION_THRESHOLD cfg \<and> sizeRatio \<ge> SIZE_THRESHOLD cfg"
      by (simp add: spec_gate_ready_def)
    have a: "StreamProcessor_handle_authentication_frame cfg detect auth frame0
              \<noteq> Inr (draw_face_box (draw_guide_box frame0 (GUIDE_BOX_RECT cfg) (128, 128, 128))
                       (location largest) (spec_feedback_message cfg centerDistance) (0, 255, 255))"
      using rdy by (simp add: sp draw_face_box_eq split: sum.splits)
    have b: "generate_frames_body cfg detect auth hold (Some frame0)
              \<noteq> ([draw_face_box (draw_guide_box frame0 (GUIDE_BOX_RECT cfg) (128, 128, 128))
                      (location largest) (spec_feedback_message cfg centerDistance) (0, 255, 255)],
                  None)"
      using rdy by (simp add: ap draw_face_box_eq split: sum.splits)
    have c: "StreamProcessor_handle_authentication_frame cfg detect auth frame0
              = (case authenticate_face auth largest of
                   Inl e \<Rightarrow> Inl e
                 | Inr rs \<Rightarrow>
                     Inr (draw_face_box
                            (draw_guide_box frame0 (GUIDE_BOX_RECT cfg) (128, 128, 128))
                            (location largest) (MSG_RESULT_PREFIX @ name (hd rs))
                            (if name (hd rs) \<noteq> ''Unknown'' then (0, 255, 0) else (0, 0, 255))))"
      using rdy by (simp add: sp)
    from True a b c show ?thesis by blast
  next
    case False
    then have nrdy: "\<not> (centerDistance \<le> POSITION_THRESHOLD cfg \<and> sizeRatio \<ge> SIZE_THRESHOLD cfg)"
      by (simp add: spec_gate_ready_def)
    have a: "StreamProcessor_handle_authentication_frame cfg detect auth frame0
              = Inr (draw_face_box (draw_guide_box frame0 (GUIDE_BOX_RECT cfg) (128, 128, 128))
                       (location largest) (spec_feedback_message cfg centerDistance) (0, 255, 255))"
      using nrdy sp by (auto simp: spec_feedback_message_def)
    have b: "generate_frames_body cfg detect auth hold (Some frame0)
              = ([draw_face_box (draw_guide_box frame0 (GUIDE_BOX_RECT cfg) (128, 128, 128))
                      (location largest) (spec_feedback_message cfg centerDistance) (0, 255, 255)],
                  None)"
      using nrdy ap by (auto simp: spec_feedback_message_def)
    have c: "StreamProcessor_handle_authentication_frame cfg detect auth frame0
              \<noteq> (case authenticate_face auth largest of
                   Inl e \<Rightarrow> Inl e
                 | Inr rs \<Rightarrow>
                     Inr (draw_face_box
                            (draw_guide_box frame0 (GUIDE_BOX_RECT cfg) (128, 128, 128))
                            (location largest) (MSG_RESULT_PREFIX @ name (hd rs))
                            (if name (hd rs) \<noteq> ''Unknown'' then (0, 255, 0) else (0, 0, 255))))"
      by (simp add: a draw_face_box_eq split: sum.splits)
    from False a b c show ?thesis by blast
  qed
qed


lemma sqrt_2500: "sqrt 2500 = 50"
  by (rule real_sqrt_unique) simp_all

lemma sqrt_6400: "sqrt 6400 = 80"
  by (rule real_sqrt_unique) simp_all

lemma metrics_face_ready:
  "calculate_face_metrics (GUIDE_BOX_RECT app_config)
     (fst (get_face_properties (location face_ready)))
     (snd (get_face_properties (location face_ready))) = Inr (50, 4 / 7)"
  by (simp add: calculate_face_metrics_def app_config_def face_ready_def get_face_properties_def
        get_box_center_def get_box_area_def linalg_norm_def Let_def sqrt_2500)

lemma metrics_face_off_center:
  "calculate_face_metrics (GUIDE_BOX_RECT app_config)
     (fst (get_face_properties (location face_off_center)))
     (snd (get_face_properties (location face_off_center))) = Inr (80, 4 / 7)"
  by (simp add: calculate_face_metrics_def app_config_def face_off_center_def
        get_face_properties_def get_box_center_def get_box_area_def linalg_norm_def Let_def
        sqrt_6400)

theorem gate_and_feedback_witness:
  "py_max face_area_key (detect_off_center frame1) = Inr face_off_center
 \<and> calculate_face_metrics (GUIDE_BOX_RECT app_config)
       (fst (get_face_properties (location face_off_center)))
       (snd (get_face_properties (location face_off_center))) = Inr (80, 4 / 7)
 \<and> \<not> spec_gate_ready app_config 80 (4 / 7)
 \<and> StreamProcessor_handle_authentication_frame app_config detect_off_center gallery_empty frame1
     = Inr (draw_face_box (draw_guide_box frame1 (465, 135, 350, 450) (128, 128, 128))
              (210, 870, 510, 570) MSG_CENTER (0, 255, 255))"
proof -
  have a: "py_max face_area_key (detect_off_center frame1) = Inr face_off_center"
    by (simp add: py_max_def detect_off_center_def)
  have g: "\<not> spec_gate_ready app_config 80 (4 / 7)"
    by (simp add: spec_gate_ready_def app_config_def)
  have m: "spec_feedback_message app_config 80 = MSG_CENTER"
    by (simp add: spec_feedback_message_def app_config_def)
  have c: "GUIDE_BOX_RECT app_config = (465, 135, 350, 450)" by (simp add: app_config_def)
  have l: "location face_off_center = (210, 870, 510, 570)" by (simp add: face_off_center_def)
  from gate_and_feedback[where detect=detect_off_center and ?frame0.0=frame1 and auth=gallery_empty
         and hold=0, OF a metrics_face_off_center] g
  have "StreamProcessor_handle_authentication_frame app_config detect_off_center gallery_empty frame1
     = Inr (draw_face_box (draw_guide_box frame1 (GUIDE_BOX_RECT app_config) (128, 128, 128))
              (location face_off_center) (spec_feedback_message app_config 80) (0, 255, 255))"
    by blast
  then show ?thesis using a metrics_face_off_center g by (simp add: m c l)
qed

text \<open>
  Claim C9. If the gate is ready for the selected face under \<open>cfg\<close>, and \<open>cfg'\<close> has the
  same guide, a position threshold at least as large and a size threshold at most as
  large, then the gate is ready under \<open>cfg'\<close> and every handler behaves under \<open>cfg'\<close> as
  under \<open>cfg\<close>: it authenticates, or freezes, all the same.
\<close>

theorem gate_monotonic:
  assumes largest: "py_max face_area_key (detect frame0) = Inr largest"
      and metrics: "calculate_face_metrics (GUIDE_BOX_RECT cfg)
                      (fst (get_face_properties (location largest)))
                      (snd (get_face_properties (location largest)))
                    = Inr (centerDistance, sizeRatio)"
      and guide: "GUIDE_BOX_RECT cfg' = GUIDE_BOX_RECT cfg"
      and pt: "POSITION_THRESHOLD cfg \<le> POSITION_THRESHOLD cfg'"
      and st: "SIZE_THRESHOLD cfg' \<le> SIZE_THRESHOLD cfg"
      and ready: "spec_gate_ready cfg centerDistance sizeRatio"
  shows "spec_gate_ready cfg' centerDistance sizeRatio
       \<and> StreamProcessor_handle_authentication_frame cfg' detect auth frame0
           = StreamProcessor_handle_authentication_frame cfg detect auth frame0
       \<and> generate_frames_body cfg' detect auth hold (Some frame0)
           = generate_frames_body cfg detect auth hold (Some frame0)
       \<and> StreamProcessor_handle_registration_frame cfg' detect frame0 s
           = StreamProcessor_handle_registration_frame cfg detect frame0 s
       \<and> handle_registration_frame cfg' detect frame0 s
           = handle_registration_frame cfg detect frame0 s"
proof -
  have r: "centerDistance \<le> POSITION_THRESHOLD cfg" "sizeRatio \<ge> SIZE_THRESHOLD cfg"
    using ready by (simp_all add: spec_gate_ready_def)
  have r': "centerDistance \<le> POSITION_THRESHOLD cfg'" "sizeRatio \<ge> SIZE_THRESHOLD cfg'"
    using r pt st by simp_all
  have metrics': "calculate_face_metrics (GUIDE_BOX_RECT cfg')
                      (fst (get_face_properties (location largest)))
                      (snd (get_face_properties (location largest)))
                    = Inr (centerDistance, sizeRatio)"
    using metrics guide by simp
  have a: "spec_gate_ready cfg' centerDistance sizeRatio"
    using r' by (simp add: spec_gate_ready_def)
  have b: "StreamProcessor_handle_authentication_frame cfg' detect auth frame0
           = StreamProcessor_handle_authentication_frame cfg detect auth frame0"
    using r r'
    by (simp add: guide StreamProcessor_handle_authentication_frame_eval[where detect=detect
            and ?frame0.0=frame0 and auth=auth, OF largest metrics]
          StreamProcessor_handle_authentication_frame_eval[where detect=detect
            and ?frame0.0=frame0 and auth=auth, OF largest metrics'] split: sum.splits)
  have c: "generate_frames_body cfg' detect auth hold (Some frame0)
           = generate_frames_body cfg detect auth hold (Some frame0)"
    using r r'
    by (simp add: guide generate_frames_body_eval[where detect=detect
            and ?frame0.0=frame0 and auth=auth and hold=hold, OF largest metrics]
          generate_frames_body_eval[where detect=detect
            and ?frame0.0=frame0 and auth=auth and hold=hold, OF largest metrics']
          split: sum.splits)
  have d: "StreamProcessor_handle_registration_frame cfg' detect frame0 s
           = StreamProcessor_handle_registration_frame cfg detect frame0 s"
    using r r'
    by (simp add: StreamProcessor_handle_registration_frame_eval[where detect=detect
            and frame=frame0 and s=s, OF largest metrics]
          StreamProcessor_handle_registration_frame_eval[where detect=detect
            and frame=frame0 and s=s, OF largest metrics'])
  have e: "handle_registration_frame cfg' detect frame0 s
           = handle_registration_frame cfg detect frame0 s"
    using r r'
    by (simp add: handle_registration_frame_eval[where detect=detect
            and frame=frame0 and s=s, OF largest metrics]
          handle_registration_frame_eval[where detect=detect
            and frame=frame0 and s=s, OF largest metrics'])
  from a b c d e show ?thesis by blast
qed

theorem gate_monotonic_witness:
  "py_max face_area_key (detect_ready frame1) = Inr face_ready
 \<and> calculate_face_metrics (GUIDE_BOX_RECT app_config)
       (fst (get_face_properties (location face_ready)))
       (snd (get_face_properties (location face_ready))) = Inr (50, 4 / 7)
 \<and> GUIDE_BOX_RECT wide_config = GUIDE_BOX_RECT app_config
 \<and> POSITION_THRESHOLD app_config \<le> POSITION_THRESHOLD wide_config
 \<and> SIZE_THRESHOLD wide_config \<le> SIZE_THRESHOLD app_config
 \<and> spec_gate_ready app_config 50 (4 / 7)
 \<and> spec_gate_ready wide_config 50 (4 / 7)
 \<and> StreamProcessor_handle_registration_frame wide_config detect_ready frame1 state_searching
     = StreamProcessor_handle_registration_frame app_config detect_ready frame1 state_searching"
proof -
  have a: "py_max face_area_key (detect_ready frame1) = Inr face_ready"
    by (simp add: py_max_def detect_ready_def)
  have g: "GUIDE_BOX_RECT wide_config = GUIDE_BOX_RECT app_config" by (simp add: wide_config_def)
  have p: "POSITION_THRESHOLD app_config \<le> POSITION_THRESHOLD wide_config"
    by (simp add: wide_config_def app_config_def)
  have s: "SIZE_THRESHOLD wide_config \<le> SIZE_THRESHOLD app_config"
    by (simp add: wide_config_def app_config_def)
  have r: "spec_gate_ready app_config 50 (4 / 7)"
    by (simp add: spec_gate_ready_def app_config_def)
  from gate_monotonic[where detect=detect_ready and ?frame0.0=frame1 and auth=gallery_empty
         and hold=0 and s=state_searching, OF a metrics_face_ready g p s r]
       a metrics_face_ready g p s r
  show ?thesis by blast
qed

section \<open>Lemmas on the session state\<close>

lemma handle_registration_frame_cases:
  "snd (handle_registration_frame cfg d f s) = s\<lparr>captured_frame := None\<rparr>
 \<or> snd (handle_registration_frame cfg d f s) = s
 \<or> (mode s = REGISTRATION_SEARCHING \<and> d f \<noteq> [] \<and>
     snd (handle_registration_frame cfg d f s)
       = s\<lparr>mode := REGISTRATION_FROZEN, captured_frame := Some f\<rparr>)"
  by (simp add: handle_registration_frame_def Let_def split: sum.splits prod.splits)

lemma StreamProcessor_handle_registration_frame_cases:
  "snd (StreamProcessor_handle_registration_frame cfg d f s) = s\<lparr>captured_frame := None\<rparr>
 \<or> snd (StreamProcessor_handle_registration_frame cfg d f s) = s
 \<or> (mode s = REGISTRATION_SEARCHING \<and> d f \<noteq> [] \<and>
     snd (StreamProcessor_handle_registration_frame cfg d f s)
       = s\<lparr>mode := REGISTRATION_FROZEN, captured_frame := Some f\<rparr>)"
  by (simp add: StreamProcessor_handle_registration_frame_def Let_def split: sum.splits prod.splits)

lemma test_app_generate_frames_step_cases:
  "snd (test_app_generate_frames_step cfg d cam s) = s
 \<or> (mode s \<noteq> AUTHENTICATING \<and> snd (test_app_generate_frames_step cfg d cam s) = s\<lparr>captured_frame := None\<rparr>)
 \<or> (mode s = REGISTRATION_SEARCHING \<and> (\<exists>f. cam = Some f \<and> d f \<noteq> [] \<and>
       snd (test_app_generate_frames_step cfg d cam s)
         = s\<lparr>mode := REGISTRATION_FROZEN, captured_frame := Some f\<rparr>))"
proof (cases "frame_source s cam")
  case None
  then show ?thesis by (simp add: test_app_generate_frames_step_def)
next
  case (Some f)
  show ?thesis
  proof (cases "mode s = AUTHENTICATING")
    case True
    then show ?thesis using Some by (simp add: test_app_generate_frames_step_def)
  next
    case False
    have eq: "snd (test_app_generate_frames_step cfg d cam s) = snd (handle_registration_frame cfg d f s)"
      using Some False by (simp add: test_app_generate_frames_step_def split: prod.splits sum.splits)
    have src: "mode s = REGISTRATION_SEARCHING \<Longrightarrow> cam = Some f"
      using Some by (simp add: frame_source_def split: option.splits)
    from handle_registration_frame_cases[of cfg d f s] eq False src show ?thesis by auto
  qed
qed

lemma StreamProcessor_generate_step_cases:
  "snd (StreamProcessor_generate_step cfg d auth cam s) = s
 \<or> (mode s \<noteq> AUTHENTICATING \<and> snd (StreamProcessor_generate_step cfg d auth cam s) = s\<lparr>captured_frame := None\<rparr>)
 \<or> (mode s = REGISTRATION_SEARCHING \<and> (\<exists>f. cam = Some f \<and> d f \<noteq> [] \<and>
       snd (StreamProcessor_generate_step cfg d auth cam s)
         = s\<lparr>mode := REGISTRATION_FROZEN, captured_frame := Some f\<rparr>))"
proof (cases "frame_source s cam")
  case None
  then show ?thesis by (simp add: StreamProcessor_generate_step_def)
next
  case (Some f)
  show ?thesis
  proof (cases "mode s = AUTHENTICATING")
    case True
    then show ?thesis using Some by (simp add: StreamProcessor_generate_step_def split: sum.splits)
  next
    case False
    have eq: "snd (StreamProcessor_generate_step cfg d auth cam s) = snd (StreamProcessor_handle_registration_frame cfg d f s)"
      using Some False by (simp add: StreamProcessor_generate_step_def split: prod.splits sum.splits)
    have src: "mode s = REGISTRATION_SEARCHING \<Longrightarrow> cam = Some f"
      using Some by (simp add: frame_source_def split: option.splits)
    from StreamProcessor_handle_registration_frame_cases[of cfg d f s] eq False src show ?thesis by auto
  qed
qed

lemma submit_registration_app_state:
  "app_state (snd (submit_registration uuid4 now ex user_name w)) = app_state w
 \<or> app_state (snd (submit_registration uuid4 now ex user_name w)) = snd (cancel_registration (app_state w))"
  by (simp add: submit_registration_def Let_def split: option.splits prod.splits sum.splits)

lemma step_frame_inv:
  assumes "frame_inv (app_state w)"
  shows "frame_inv (app_state (step cfg ex e w))"
proof (cases e)
  case StartRegistration
  then show ?thesis using assms by (simp add: frame_inv_def start_registration_def)
next
  case Recapture
  then show ?thesis by (simp add: frame_inv_def recapture_def)
next
  case CancelRegistration
  then show ?thesis by (simp add: frame_inv_def cancel_registration_def)
next
  case (SubmitRegistration user_name uuid4 now)
  with submit_registration_app_state[of uuid4 now ex user_name w] assms show ?thesis
    by (auto simp: frame_inv_def cancel_registration_def)
next
  case (Frame cam d)
  with test_app_generate_frames_step_cases[of cfg d cam "app_state w"] assms show ?thesis
    by (auto simp: frame_inv_def)
next
  case (StreamFrame cam d)
  with StreamProcessor_generate_step_cases[of cfg d "auth_service w" cam "app_state w"] assms show ?thesis
    by (auto simp: frame_inv_def)
qed

lemma run_frame_inv:
  assumes "frame_inv (app_state w)"
  shows "frame_inv (app_state (run cfg ex evs w))"
  using assms
proof (induction evs arbitrary: w)
  case Nil
  then show ?case by (simp add: run_def)
next
  case (Cons e evs)
  have "run cfg ex (e # evs) w = run cfg ex evs (step cfg ex e w)" by (simp add: run_def)
  with Cons.IH[OF step_frame_inv[OF Cons.prems]] show ?case by simp
qed

section \<open>Command handlers: recapture and cancel\<close>

text \<open>
  Claim C5. From \<open>REGISTRATION_FROZEN\<close>, \<open>recapture\<close> sets the mode to
  \<open>REGISTRATION_SEARCHING\<close> (never \<open>AUTHENTICATING\<close>) and clears the captured frame; from
  either registration state, \<open>cancel_registration\<close> sets the mode to \<open>AUTHENTICATING\<close> and
  clears the captured frame. Both leave the remaining field of the state alone.
\<close>

theorem recapture_cancel_transitions:
  "(mode s = REGISTRATION_FROZEN \<longrightarrow>
      mode (snd (recapture s)) = REGISTRATION_SEARCHING
    \<and> mode (snd (recapture s)) \<noteq> AUTHENTICATING
    \<and> captured_frame (snd (recapture s)) = None
    \<and> last_auth_result (snd (recapture s)) = last_auth_result s)
 \<and> (mode s = REGISTRATION_SEARCHING \<or> mode s = REGISTRATION_FROZEN \<longrightarrow>
      mode (snd (cancel_registration s)) = AUTHENTICATING
    \<and> captured_frame (snd (cancel_registration s)) = None
    \<and> last_auth_result (snd (cancel_registration s)) = last_auth_result s)"
  by (simp add: recapture_def cancel_registration_def)

theorem recapture_cancel_transitions_witness:
  "mode (snd (recapture \<lparr>mode = REGISTRATION_FROZEN,
       captured_frame = Some \<lparr>pixels = (7::nat), drawn = []\<rparr>, last_auth_result = None\<rparr>))
     = REGISTRATION_SEARCHING
 \<and> captured_frame (snd (recapture \<lparr>mode = REGISTRATION_FROZEN,
       captured_frame = Some \<lparr>pixels = (7::nat), drawn = []\<rparr>, last_auth_result = None\<rparr>))
     = None
 \<and> mode (snd (cancel_registration \<lparr>mode = REGISTRATION_FROZEN,
       captured_frame = Some \<lparr>pixels = (7::nat), drawn = []\<rparr>, last_auth_result = None\<rparr>))
     = AUTHENTICATING
 \<and> captured_frame (snd (cancel_registration \<lparr>mode = REGISTRATION_FROZEN,
       captured_frame = Some \<lparr>pixels = (7::nat), drawn = []\<rparr>, last_auth_result = None\<rparr>))
     = None"
  using recapture_cancel_transitions [of "\<lparr>mode = REGISTRATION_FROZEN,
       captured_frame = Some \<lparr>pixels = (7::nat), drawn = []\<rparr>, last_auth_result = None\<rparr>"]
  by simp

section \<open>Start of registration\<close>

text \<open>
  Claim C6, amended. \<open>start_registration\<close> sets the mode to \<open>REGISTRATION_SEARCHING\<close> and
  leaves the captured frame as it was. In every state that a run of events reaches from
  the initial state, mode \<open>AUTHENTICATING\<close> holds no captured frame, so none is held after
  the command either.
\<close>

theorem start_registration_transition:
  "snd (start_registration s) = s\<lparr>mode := REGISTRATION_SEARCHING\<rparr>
 \<and> (app_state w0 = AppState_init \<and> mode (app_state (run cfg ex evs w0)) = AUTHENTICATING \<longrightarrow>
      mode (snd (start_registration (app_state (run cfg ex evs w0)))) = REGISTRATION_SEARCHING
    \<and> captured_frame (snd (start_registration (app_state (run cfg ex evs w0)))) = None)"
proof (intro conjI impI)
  show "snd (start_registration s) = s\<lparr>mode := REGISTRATION_SEARCHING\<rparr>"
    by (simp add: start_registration_def)
next
  assume a: "app_state w0 = AppState_init \<and> mode (app_state (run cfg ex evs w0)) = AUTHENTICATING"
  then have "frame_inv (app_state w0)" by (simp add: frame_inv_def AppState_init_def)
  then have "frame_inv (app_state (run cfg ex evs w0))" by (rule run_frame_inv)
  with a have n: "captured_frame (app_state (run cfg ex evs w0)) = None" by (simp add: frame_inv_def)
  show "mode (snd (start_registration (app_state (run cfg ex evs w0)))) = REGISTRATION_SEARCHING"
    by (simp add: start_registration_def)
  show "captured_frame (snd (start_registration (app_state (run cfg ex evs w0)))) = None"
    using n by (simp add: start_registration_def)
qed

lemma run_example: "app_state (run app_config no_encodings [StartRegistration, CancelRegistration] world_init) = AppState_init"
  by (simp add: run_def world_init_def AppState_init_def start_registration_def cancel_registration_def)

theorem start_registration_transition_witness:
  "app_state world_init = AppState_init
 \<and> mode (app_state (run app_config no_encodings [StartRegistration, CancelRegistration] world_init))
     = AUTHENTICATING
 \<and> mode (snd (start_registration (app_state
       (run app_config no_encodings [StartRegistration, CancelRegistration] world_init))))
     = REGISTRATION_SEARCHING
 \<and> captured_frame (snd (start_registration (app_state
       (run app_config no_encodings [StartRegistration, CancelRegistration] world_init))))
     = None"
proof -
  have a: "app_state world_init = AppState_init" by (simp add: world_init_def)
  have b: "mode (app_state (run app_config no_encodings [StartRegistration, CancelRegistration] world_init))
     = AUTHENTICATING"
    by (simp add: run_example AppState_init_def)
  from start_registration_transition[of state_stale world_init app_config no_encodings
         "[StartRegistration, CancelRegistration]"] a b
  show ?thesis by blast
qed

text \<open>
  As a function of the state, \<open>start_registration\<close> does not clear a frame: applied to a
  state in mode \<open>AUTHENTICATING\<close> that holds \<open>frame1\<close>, it leaves \<open>frame1\<close> in place.
\<close>

theorem start_registration_keeps_frame_counterexample:
  "mode state_stale = AUTHENTICATING
 \<and> captured_frame (snd (start_registration state_stale)) = Some frame1
 \<and> captured_frame (snd (start_registration state_stale)) \<noteq> None"
  by (simp add: state_stale_def start_registration_def)

section \<open>Frames without a face\<close>

text \<open>
  Claim C7, amended. When the detector finds no face in the frame, the handler emits the
  frame with no face annotation (with the guide outline in authentication mode, untouched
  in the registration modes) and leaves the mode as it is; the captured frame is cleared
  whenever the registration handler runs, in \<open>REGISTRATION_SEARCHING\<close> and in
  \<open>REGISTRATION_FROZEN\<close> alike, and is left as it is in \<open>AUTHENTICATING\<close>.
\<close>

theorem no_face_frame:
  assumes noface: "detect frame = []"
  shows "StreamProcessor_handle_authentication_frame cfg detect auth frame
           = Inr (draw_guide_box frame (GUIDE_BOX_RECT cfg) (128, 128, 128))
       \<and> generate_frames_body cfg detect auth hold (Some frame)
           = ([draw_guide_box frame (GUIDE_BOX_RECT cfg) (128, 128, 128)], None)
       \<and> StreamProcessor_handle_registration_frame cfg detect frame s
           = (Inr frame, s\<lparr>captured_frame := None\<rparr>)
       \<and> handle_registration_frame cfg detect frame s
           = (Inr frame, s\<lparr>captured_frame := None\<rparr>)
       \<and> (frame_source s cam = Some frame \<longrightarrow>
             StreamProcessor_generate_step cfg detect auth cam s
               = (if mode s = AUTHENTICATING
                  then (Inr (Some (draw_guide_box frame (GUIDE_BOX_RECT cfg) (128, 128, 128))), s)
                  else (Inr (Some frame), s\<lparr>captured_frame := None\<rparr>))
           \<and> test_app_generate_frames_step cfg detect cam s
               = (if mode s = AUTHENTICATING then (Inr (Some frame), s)
                  else (Inr (Some frame), s\<lparr>captured_frame := None\<rparr>))
           \<and> mode (snd (StreamProcessor_generate_step cfg detect auth cam s)) = mode s
           \<and> mode (snd (test_app_generate_frames_step cfg detect cam s)) = mode s)"
proof -
  have a: "StreamProcessor_handle_authentication_frame cfg detect auth frame
           = Inr (draw_guide_box frame (GUIDE_BOX_RECT cfg) (128, 128, 128))"
    using noface by (simp add: StreamProcessor_handle_authentication_frame_def)
  have b: "generate_frames_body cfg detect auth hold (Some frame)
           = ([draw_guide_box frame (GUIDE_BOX_RECT cfg) (128, 128, 128)], None)"
    using noface
    by (cases "GUIDE_BOX_RECT cfg") (simp add: generate_frames_body_def draw_guide_box_def)
  have c: "StreamProcessor_handle_registration_frame cfg detect frame s
           = (Inr frame, s\<lparr>captured_frame := None\<rparr>)"
    using noface by (simp add: StreamProcessor_handle_registration_frame_def)
  have d: "handle_registration_frame cfg detect frame s
           = (Inr frame, s\<lparr>captured_frame := None\<rparr>)"
    using noface by (simp add: handle_registration_frame_def)
  have e: "frame_source s cam = Some frame \<Longrightarrow>
             StreamProcessor_generate_step cfg detect auth cam s
               = (if mode s = AUTHENTICATING
                  then (Inr (Some (draw_guide_box frame (GUIDE_BOX_RECT cfg) (128, 128, 128))), s)
                  else (Inr (Some frame), s\<lparr>captured_frame := None\<rparr>))"
    by (simp add: StreamProcessor_generate_step_def a c)
  have f: "frame_source s cam = Some frame \<Longrightarrow>
             test_app_generate_frames_step cfg detect cam s
               = (if mode s = AUTHENTICATING then (Inr (Some frame), s)
                  else (Inr (Some frame), s\<lparr>captured_frame := None\<rparr>))"
    by (simp add: test_app_generate_frames_step_def d)
  have g: "frame_source s cam = Some frame \<Longrightarrow>
             mode (snd (StreamProcessor_generate_step cfg detect auth cam s)) = mode s"
    by (simp add: e)
  have h: "frame_source s cam = Some frame \<Longrightarrow>
             mode (snd (test_app_generate_frames_step cfg detect cam s)) = mode s"
    by (simp add: f)
  from a b c d e f g h show ?thesis by blast
qed

theorem no_face_frame_witness:
  "detect_none frame2 = []
 \<and> frame_source state_searching (Some frame2) = Some frame2
 \<and> StreamProcessor_generate_step app_config detect_none gallery_empty (Some frame2) state_searching
     = (Inr (Some frame2),
        \<lparr>mode = REGISTRATION_SEARCHING, captured_frame = None, last_auth_result = None\<rparr>)
 \<and> StreamProcessor_handle_authentication_frame app_config detect_none gallery_empty frame2
     = Inr (draw_guide_box frame2 (465, 135, 350, 450) (128, 128, 128))"
proof -
  have a: "detect_none frame2 = []" by (simp add: detect_none_def)
  have b: "frame_source state_searching (Some frame2) = Some frame2"
    by (simp add: frame_source_def state_searching_def)
  from no_face_frame[where detect=detect_none and frame=frame2 and cfg=app_config
         and auth=gallery_empty and hold=0 and s=state_searching and cam="Some frame2", OF a] a b
  show ?thesis by (simp add: state_searching_def app_config_def)
qed

text \<open>
  In mode \<open>REGISTRATION_FROZEN\<close> with \<open>frame1\<close> captured, a frame without a face makes both
  registration handlers, and both loop iterations, drop \<open>frame1\<close>.
\<close>

theorem no_face_frozen_counterexample:
  "mode state_frozen = REGISTRATION_FROZEN
 \<and> captured_frame state_frozen = Some frame1
 \<and> detect_none frame1 = []
 \<and> captured_frame (snd (StreamProcessor_handle_registration_frame app_config detect_none
                           frame1 state_frozen)) = None
 \<and> captured_frame (snd (handle_registration_frame app_config detect_none frame1 state_frozen))
     = None
 \<and> captured_frame (snd (StreamProcessor_generate_step app_config detect_none gallery_empty
                           None state_frozen)) = None
 \<and> captured_frame (snd (test_app_generate_frames_step app_config detect_none None state_frozen))
     = None"
  by (simp add: state_frozen_def detect_none_def StreamProcessor_handle_registration_frame_def
        handle_registration_frame_def StreamProcessor_generate_step_def
        test_app_generate_frames_step_def frame_source_def)

lemma enter_frozen:
  assumes "mode (app_state w) \<noteq> REGISTRATION_FROZEN"
      and "mode (app_state (step cfg ex e w)) = REGISTRATION_FROZEN"
  shows "\<exists>cam det f. (e = Frame cam det \<or> e = StreamFrame cam det) \<and> cam = Some f
           \<and> mode (app_state w) = REGISTRATION_SEARCHING
           \<and> captured_frame (app_state (step cfg ex e w)) = Some f"
proof (cases e)
  case StartRegistration
  then show ?thesis using assms by (simp add: start_registration_def)
next
  case Recapture
  then show ?thesis using assms by (simp add: recapture_def)
next
  case CancelRegistration
  then show ?thesis using assms by (simp add: cancel_registration_def)
next
  case (SubmitRegistration user_name uuid4 now)
  with submit_registration_app_state[of uuid4 now ex user_name w] assms show ?thesis
    by (auto simp: cancel_registration_def)
next
  case (Frame cam d)
  with test_app_generate_frames_step_cases[of cfg d cam "app_state w"] assms show ?thesis
    by auto
next
  case (StreamFrame cam d)
  with StreamProcessor_generate_step_cases[of cfg d "auth_service w" cam "app_state w"] assms
  show ?thesis by auto
qed

section \<open>Freezing a frame\<close>

text \<open>
  Claim C8. In mode \<open>REGISTRATION_SEARCHING\<close>, when the gate is ready for the selected face,
  both registration handlers set the mode to \<open>REGISTRATION_FROZEN\<close> and the captured frame
  to the current frame, whatever was captured before. The captured frame is a single
  optional value, so every state of every run holds at most one; and the only events
  that enter \<open>REGISTRATION_FROZEN\<close> are frame iterations in \<open>REGISTRATION_SEARCHING\<close>, after
  which the captured frame is the camera frame of that iteration.
\<close>

theorem freeze_on_ready:
  "(mode s = REGISTRATION_SEARCHING
      \<and> py_max face_area_key (detect frame) = Inr largest
      \<and> calculate_face_metrics (GUIDE_BOX_RECT cfg)
            (fst (get_face_properties (location largest)))
            (snd (get_face_properties (location largest))) = Inr (centerDistance, sizeRatio)
      \<and> spec_gate_ready cfg centerDistance sizeRatio
    \<longrightarrow> StreamProcessor_handle_registration_frame cfg detect frame s
          = (Inr (draw_face_box frame (location largest) MSG_REGISTER (0, 255, 0)),
             s\<lparr>mode := REGISTRATION_FROZEN, captured_frame := Some frame\<rparr>)
      \<and> snd (handle_registration_frame cfg detect frame s)
          = s\<lparr>mode := REGISTRATION_FROZEN, captured_frame := Some frame\<rparr>)
 \<and> card (set_option (captured_frame (app_state (run cfg ex evs w)))) \<le> 1
 \<and> (mode (app_state w) \<noteq> REGISTRATION_FROZEN
      \<and> mode (app_state (step cfg ex e w)) = REGISTRATION_FROZEN
    \<longrightarrow> (\<exists>cam det f. (e = Frame cam det \<or> e = StreamFrame cam det) \<and> cam = Some f
           \<and> mode (app_state w) = REGISTRATION_SEARCHING
           \<and> captured_frame (app_state (step cfg ex e w)) = Some f))"
proof (intro conjI impI)
  assume h: "mode s = REGISTRATION_SEARCHING
      \<and> py_max face_area_key (detect frame) = Inr largest
      \<and> calculate_face_metrics (GUIDE_BOX_RECT cfg)
            (fst (get_face_properties (location largest)))
            (snd (get_face_properties (location largest))) = Inr (centerDistance, sizeRatio)
      \<and> spec_gate_ready cfg centerDistance sizeRatio"
  then have l: "py_max face_area_key (detect frame) = Inr largest"
    and m: "calculate_face_metrics (GUIDE_BOX_RECT cfg)
            (fst (get_face_properties (location largest)))
            (snd (get_face_properties (location largest))) = Inr (centerDistance, sizeRatio)"
    and r: "centerDistance \<le> POSITION_THRESHOLD cfg" "sizeRatio \<ge> SIZE_THRESHOLD cfg"
    and md: "mode s = REGISTRATION_SEARCHING"
    by (simp_all add: spec_gate_ready_def)
  show "StreamProcessor_handle_registration_frame cfg detect frame s
          = (Inr (draw_face_box frame (location largest) MSG_REGISTER (0, 255, 0)),
             s\<lparr>mode := REGISTRATION_FROZEN, captured_frame := Some frame\<rparr>)"
    using r md
    by (simp add: StreamProcessor_handle_registration_frame_eval[where detect=detect
          and frame=frame and s=s, OF l m])
  show "snd (handle_registration_frame cfg detect frame s)
          = s\<lparr>mode := REGISTRATION_FROZEN, captured_frame := Some frame\<rparr>"
    using r md
    by (simp add: handle_registration_frame_eval[where detect=detect
          and frame=frame and s=s, OF l m])
next
  show "card (set_option (captured_frame (app_state (run cfg ex evs w)))) \<le> 1"
    by (cases "captured_frame (app_state (run cfg ex evs w))") simp_all
next
  assume "mode (app_state w) \<noteq> REGISTRATION_FROZEN
      \<and> mode (app_state (step cfg ex e w)) = REGISTRATION_FROZEN"
  then show "\<exists>cam det f. (e = Frame cam det \<or> e = StreamFrame cam det) \<and> cam = Some f
           \<and> mode (app_state w) = REGISTRATION_SEARCHING
           \<and> captured_frame (app_state (step cfg ex e w)) = Some f"
    using enter_frozen by blast
qed

theorem freeze_on_ready_witness:
  "mode state_searching = REGISTRATION_SEARCHING
 \<and> captured_frame state_searching = Some frame2
 \<and> py_max face_area_key (detect_ready frame1) = Inr face_ready
 \<and> calculate_face_metrics (GUIDE_BOX_RECT app_config)
       (fst (get_face_properties (location face_ready)))
       (snd (get_face_properties (location face_ready))) = Inr (50, 4 / 7)
 \<and> spec_gate_ready app_config 50 (4 / 7)
 \<and> snd (StreamProcessor_handle_registration_frame app_config detect_ready frame1 state_searching)
     = \<lparr>mode = REGISTRATION_FROZEN, captured_frame = Some frame1, last_auth_result = None\<rparr>
 \<and> snd (handle_registration_frame app_config detect_ready frame1 state_searching)
     = \<lparr>mode = REGISTRATION_FROZEN, captured_frame = Some frame1, last_auth_result = None\<rparr>"
proof -
  have a: "mode state_searching = REGISTRATION_SEARCHING" by (simp add: state_searching_def)
  have b: "py_max face_area_key (detect_ready frame1) = Inr face_ready"
    by (simp add: py_max_def detect_ready_def)
  have r: "spec_gate_ready app_config 50 (4 / 7)"
    by (simp add: spec_gate_ready_def app_config_def)
  have c: "captured_frame state_searching = Some frame2" by (simp add: state_searching_def)
  from freeze_on_ready[where s=state_searching and detect=detect_ready and frame=frame1
         and largest=face_ready and cfg=app_config and centerDistance=50 and sizeRatio="4 / 7"
         and ex=no_encodings and evs="[]" and w=world_init and e=Recapture]
       a b metrics_face_ready r
  have "StreamProcessor_handle_registration_frame app_config detect_ready frame1 state_searching
          = (Inr (draw_face_box frame1 (location face_ready) MSG_REGISTER (0, 255, 0)),
             state_searching\<lparr>mode := REGISTRATION_FROZEN, captured_frame := Some frame1\<rparr>)
      \<and> snd (handle_registration_frame app_config detect_ready frame1 state_searching)
          = state_searching\<lparr>mode := REGISTRATION_FROZEN, captured_frame := Some frame1\<rparr>"
    by blast
  then show ?thesis using a b c metrics_face_ready r by (simp add: state_searching_def)
qed

section \<open>Submission of a registration\<close>

text \<open>
  Claim C4. When the name is missing or empty, or no frame is captured,
  \<open>submit_registration\<close> answers with the error response (HTTP 400, status \<open>error\<close>) and
  the whole state, that is session state, storage and authentication service, is as
  before.
\<close>

theorem submit_registration_rejected:
  assumes "user_name = None \<or> user_name = Some [] \<or> captured_frame (app_state w) = None"
  shows "submit_registration uuid4 now ex user_name w
           = (Inr \<lparr>http_code = 400, status = ''error'', message = Some MSG_SUBMIT_ERROR\<rparr>, w)"
  using assms
  by (auto simp: submit_registration_def submit_error_response_def split: option.splits)

theorem submit_registration_rejected_witness:
  "captured_frame (app_state world_init) = None
 \<and> submit_registration ''id-1'' ''t0'' one_encoding (Some ''Alice'') world_init
     = (Inr \<lparr>http_code = 400, status = ''error'', message = Some MSG_SUBMIT_ERROR\<rparr>, world_init)
 \<and> submit_registration ''id-1'' ''t0'' one_encoding (Some []) world_frozen
     = (Inr \<lparr>http_code = 400, status = ''error'', message = Some MSG_SUBMIT_ERROR\<rparr>, world_frozen)"
proof -
  have a: "captured_frame (app_state world_init) = None"
    by (simp add: world_init_def AppState_init_def)
  from submit_registration_rejected[of "Some ''Alice''" world_init "''id-1''" "''t0''" one_encoding]
       submit_registration_rejected[of "Some []" world_frozen "''id-1''" "''t0''" one_encoding] a
  show ?thesis by simp
qed

text \<open>
  With a name and a captured frame, \<open>submit_registration\<close> always ends in \<open>AttributeError\<close>,
  after the new user has been written to the metadata.
\<close>

lemma submit_registration_accepted:
  assumes "captured_frame (app_state w) = Some cf" and "nm \<noteq> []"
  shows "fst (submit_registration uuid4 now ex (Some nm) w) = Inl AttributeError
       \<and> app_state (snd (submit_registration uuid4 now ex (Some nm) w)) = app_state w
       \<and> auth_service (snd (submit_registration uuid4 now ex (Some nm) w)) = auth_service w
       \<and> metadata_file (storage (snd (submit_registration uuid4 now ex (Some nm) w)))
           = metadata_file (storage w)
             @ [\<lparr>md_user_id = uuid4, md_name = nm, md_registered_at = now\<rparr>]"
  using assms
  by (simp add: submit_registration_def register_new_user_def read_metadata_def
        write_metadata_def save_images_for_user_def build_encodings_from_dataset_def
        save_encodings_def AuthenticationService_call0_def AuthenticationService_methods_def
        AuthenticationService_fields_def Let_def split: prod.splits)

text \<open>
  Claim C3. With a name and a captured frame, \<open>submit_registration\<close> registers the user
  and rebuilds the encodings file, then calls \<open>auth_service.reload_knowledge()\<close>, a method
  that \<open>AuthenticationService\<close> does not have (its loader is \<open>_load_knowledge\<close>). The call
  raises \<open>AttributeError\<close>: the in-memory gallery is not refreshed, and
  \<open>cancel_registration\<close> is not reached, so the mode stays \<open>REGISTRATION_FROZEN\<close> and the
  captured frame stays. The lemma above shows it for every state; the theorem evaluates
  one request.
\<close>

theorem submit_registration_attribute_error:
  "fst (submit_registration ''id-1'' ''t0'' one_encoding (Some ''Alice'') world_frozen)
     = Inl AttributeError
 \<and> app_state (snd (submit_registration ''id-1'' ''t0'' one_encoding (Some ''Alice'') world_frozen))
     = state_frozen
 \<and> auth_service (snd (submit_registration ''id-1'' ''t0'' one_encoding (Some ''Alice'')
                         world_frozen))
     = gallery_empty
 \<and> metadata_file (storage (snd (submit_registration ''id-1'' ''t0'' one_encoding
                                   (Some ''Alice'') world_frozen)))
     = [\<lparr>md_user_id = ''id-1'', md_name = ''Alice'', md_registered_at = ''t0''\<rparr>]
 \<and> dataset (storage (snd (submit_registration ''id-1'' ''t0'' one_encoding
                             (Some ''Alice'') world_frozen))) ''id-1''
     = Some [frame1]
 \<and> encodings_file (storage (snd (submit_registration ''id-1'' ''t0'' one_encoding
                                    (Some ''Alice'') world_frozen)))
     = Some ([[1, 0]], [''id-1''])"
  by (simp add: submit_registration_def world_frozen_def state_frozen_def storage_empty_def
        register_new_user_def read_metadata_def write_metadata_def save_images_for_user_def
        dict_get_def build_encodings_from_dataset_def get_image_paths_for_user_def
        save_encodings_def one_encoding_def AuthenticationService_call0_def
        AuthenticationService_methods_def AuthenticationService_fields_def Let_def)

end
